theory Spec2Isabelle
  imports Complex_Main
begin

section \<open>Numbers and vectors\<close>

text \<open>
  The engine computes on JavaScript numbers. They are modelled as the real numbers: the
  finite values, with exact arithmetic, so rounding is not represented. Where the
  source can divide by zero or take the root of a negative number the result (NaN or an
  infinity) has no counterpart here; the theorems below carry the hypotheses that keep
  every denominator non-zero, and the functions whose behaviour at such a point matters
  for a claim write that behaviour out.

  \<open>Vector2\<close> wraps a two-element array \<open>data\<close>; the fields are \<open>data[0]\<close> and
  \<open>data[1]\<close>. Its mutating methods return \<open>this\<close>; the model returns the new value
  of the receiver. No two vector arguments of a call are the same object unless the
  source says so.
\<close>

record Vector2 =
  data0 :: real
  data1 :: real

text \<open>
  The functions of the \<open>vec2\<close> module of gl-matrix that \<open>Vector2\<close> delegates to.
  gl-matrix is a dependency of the repository; the functions are written as that library
  defines them, on two components.
\<close>

definition vec2_sqrLen :: "Vector2 \<Rightarrow> real" where
  "vec2_sqrLen a = data0 a * data0 a + data1 a * data1 a"

definition vec2_len :: "Vector2 \<Rightarrow> real" where
  "vec2_len a = sqrt (data0 a * data0 a + data1 a * data1 a)"

definition vec2_sub :: "Vector2 \<Rightarrow> Vector2 \<Rightarrow> Vector2" where
  "vec2_sub a b = \<lparr>data0 = data0 a - data0 b, data1 = data1 a - data1 b\<rparr>"

definition vec2_add :: "Vector2 \<Rightarrow> Vector2 \<Rightarrow> Vector2" where
  "vec2_add a b = \<lparr>data0 = data0 a + data0 b, data1 = data1 a + data1 b\<rparr>"

definition vec2_scale :: "Vector2 \<Rightarrow> real \<Rightarrow> Vector2" where
  "vec2_scale a b = \<lparr>data0 = data0 a * b, data1 = data1 a * b\<rparr>"

definition vec2_scaleAndAdd :: "Vector2 \<Rightarrow> Vector2 \<Rightarrow> real \<Rightarrow> Vector2" where
  "vec2_scaleAndAdd a b s = \<lparr>data0 = data0 a + data0 b * s, data1 = data1 a + data1 b * s\<rparr>"

definition vec2_dot :: "Vector2 \<Rightarrow> Vector2 \<Rightarrow> real" where
  "vec2_dot a b = data0 a * data0 b + data1 a * data1 b"

definition vec2_squaredDistance :: "Vector2 \<Rightarrow> Vector2 \<Rightarrow> real" where
  "vec2_squaredDistance a b =
     (let dx = data0 b - data0 a; dy = data1 b - data1 a in dx * dx + dy * dy)"

definition vec2_distance :: "Vector2 \<Rightarrow> Vector2 \<Rightarrow> real" where
  "vec2_distance a b =
     (let dx = data0 b - data0 a; dy = data1 b - data1 a in sqrt (dx * dx + dy * dy))"

definition vec2_normalize :: "Vector2 \<Rightarrow> Vector2" where
  "vec2_normalize a =
     (let l = data0 a * data0 a + data1 a * data1 a in
      if l > 0 then \<lparr>data0 = data0 a * (1 / sqrt l), data1 = data1 a * (1 / sqrt l)\<rparr>
      else a)"

text \<open>The methods of class \<open>Vector2\<close>.\<close>

definition Vector2_clone :: "Vector2 \<Rightarrow> Vector2" where
  "Vector2_clone v = v"

definition Vector2_len :: "Vector2 \<Rightarrow> real" where
  "Vector2_len v = vec2_len v"

definition Vector2_sqrLen :: "Vector2 \<Rightarrow> real" where
  "Vector2_sqrLen v = vec2_sqrLen v"

definition Vector2_copy :: "Vector2 \<Rightarrow> Vector2 \<Rightarrow> Vector2" where
  "Vector2_copy this v = v"

definition Vector2_sub :: "Vector2 \<Rightarrow> Vector2 \<Rightarrow> Vector2" where
  "Vector2_sub this v = vec2_sub this v"

definition Vector2_nor :: "Vector2 \<Rightarrow> Vector2" where
  "Vector2_nor this = vec2_normalize this"

definition Vector2_add :: "Vector2 \<Rightarrow> Vector2 \<Rightarrow> Vector2" where
  "Vector2_add this v = vec2_add this v"

definition Vector2_dot :: "Vector2 \<Rightarrow> Vector2 \<Rightarrow> real" where
  "Vector2_dot this v = vec2_dot this v"

definition Vector2_scale :: "Vector2 \<Rightarrow> real \<Rightarrow> Vector2" where
  "Vector2_scale this scalar = vec2_scale this scalar"

definition Vector2_scaleAndAdd :: "Vector2 \<Rightarrow> Vector2 \<Rightarrow> real \<Rightarrow> Vector2" where
  "Vector2_scaleAndAdd this vec scalar = vec2_scaleAndAdd this vec scalar"

definition Vector2_dst :: "Vector2 \<Rightarrow> Vector2 \<Rightarrow> real" where
  "Vector2_dst this v = vec2_distance this v"

definition Vector2_dst2 :: "Vector2 \<Rightarrow> Vector2 \<Rightarrow> real" where
  "Vector2_dst2 this v = vec2_squaredDistance this v"

text \<open>
  \<open>limit2\<close> is only reached through \<open>limit\<close>, whose argument \<open>limit * limit\<close> is never
  negative, so the root is taken of a non-negative quotient with a positive denominator.
\<close>

definition Vector2_limit2 :: "Vector2 \<Rightarrow> real \<Rightarrow> Vector2" where
  "Vector2_limit2 this limit2 =
     (let len2 = Vector2_sqrLen this in
      if len2 > limit2 then Vector2_scale this (sqrt (limit2 / len2)) else this)"

definition Vector2_limit :: "Vector2 \<Rightarrow> real \<Rightarrow> Vector2" where
  "Vector2_limit this limit = Vector2_limit2 this (limit * limit)"

definition Vector2_isZero :: "Vector2 \<Rightarrow> bool" where
  "Vector2_isZero this \<longleftrightarrow> data0 this = 0 \<and> data1 this = 0"

definition Vector2_setZero :: "Vector2 \<Rightarrow> Vector2" where
  "Vector2_setZero this = \<lparr>data0 = 0, data1 = 0\<rparr>"

section \<open>Steering acceleration\<close>

text \<open>
  The field \<open>linear\<close> of the source is \<open>linear_acc\<close> here, since \<open>linear\<close> is a constant
  of the library.
\<close>

record SteeringAcceleration =
  linear_acc :: Vector2
  angular :: real

definition SteeringAcceleration_isZero :: "SteeringAcceleration \<Rightarrow> bool" where
  "SteeringAcceleration_isZero this \<longleftrightarrow> angular this = 0 \<and> Vector2_isZero (linear_acc this)"

definition SteeringAcceleration_setZero :: "SteeringAcceleration \<Rightarrow> SteeringAcceleration" where
  "SteeringAcceleration_setZero this =
     this\<lparr>linear_acc := Vector2_setZero (linear_acc this), angular := 0\<rparr>"

definition mulAdd :: "SteeringAcceleration \<Rightarrow> SteeringAcceleration \<Rightarrow> real \<Rightarrow> SteeringAcceleration" where
  "mulAdd this steering scalar =
     this\<lparr>linear_acc := Vector2_scaleAndAdd (linear_acc this) (linear_acc steering) scalar,
          angular := angular this + angular steering * scalar\<rparr>"

definition calculateSquareMagnitude :: "SteeringAcceleration \<Rightarrow> real" where
  "calculateSquareMagnitude this = Vector2_sqrLen (linear_acc this) + angular this * angular this"

definition calculateMagnitude :: "SteeringAcceleration \<Rightarrow> real" where
  "calculateMagnitude this = sqrt (calculateSquareMagnitude this)"

section \<open>Limiter, Steerable and the base class of the behaviors\<close>

text \<open>
  \<open>Limiter\<close> and \<open>Steerable\<close> are interfaces of getters. An object is modelled by the
  values its getters return during one evaluation; a \<open>Steerable\<close> is also a \<open>Limiter\<close>,
  and its own getters are the fields \<open>position\<close>, \<open>orientation\<close>, \<open>linearVelocity\<close>,
  \<open>angularVelocity\<close>, \<open>boundingRadius\<close> and \<open>tagged\<close>.
  The caps are finite numbers: the limiters whose getters throw, and the neutral limiter
  whose caps are infinite, are not among the objects of this type.
\<close>

record Limiter =
  getZeroLinearSpeedThreshold :: real
  getMaxLinearSpeed :: real
  getMaxLinearAcceleration :: real
  getMaxAngularSpeed :: real
  getMaxAngularAcceleration :: real

record Steerable = Limiter +
  position :: Vector2
  orientation :: real
  linearVelocity :: Vector2
  angularVelocity :: real
  boundingRadius :: real
  tagged :: bool

text \<open>The field \<open>limiter\<close> is \<open>None\<close> for \<open>null\<close>.\<close>

record SteeringBehavior =
  owner :: Steerable
  limiter :: "Limiter option"
  enabled :: bool

definition getActualLimiter :: "'a SteeringBehavior_scheme \<Rightarrow> Limiter" where
  "getActualLimiter this =
     (case limiter this of None \<Rightarrow> Limiter.truncate (owner this) | Some l \<Rightarrow> l)"

text \<open>
  \<open>calculateSteering\<close> of the base class. The abstract method \<open>calculateRealSteering\<close>
  is the argument \<open>real_steering\<close>: what the subclass computes from the output buffer.
\<close>

definition calculateSteering ::
  "'a SteeringBehavior_scheme \<Rightarrow> (SteeringAcceleration \<Rightarrow> SteeringAcceleration) \<Rightarrow>
     SteeringAcceleration \<Rightarrow> SteeringAcceleration" where
  "calculateSteering this real_steering steering =
     (if enabled this then real_steering steering else SteeringAcceleration_setZero steering)"

section \<open>Arrive\<close>

text \<open>
  A \<open>Location\<close> is read through \<open>getPosition\<close> and \<open>getOrientation\<close> only.
\<close>

record Location =
  getPosition :: Vector2
  getOrientation :: real

record Arrive = SteeringBehavior +
  target :: Location
  arrivalTolerance :: real
  decelerationRadius :: real
  timeToTarget :: real

text \<open>
  \<open>toTarget\<close> and \<open>targetVelocity\<close> are the vector \<open>steering.linear\<close> itself, which
  the method overwrites step by step.
\<close>

definition arrive :: "Arrive \<Rightarrow> SteeringAcceleration \<Rightarrow> Vector2 \<Rightarrow> SteeringAcceleration" where
  "arrive this steering targetPosition =
     (let toTarget = Vector2_sub (Vector2_copy (linear_acc steering) targetPosition)
                       (position (owner this));
          steering = steering\<lparr>linear_acc := toTarget\<rparr>;
          distance = Vector2_len toTarget
      in if distance \<le> arrivalTolerance this then SteeringAcceleration_setZero steering
         else
           let actualLimiter = getActualLimiter this;
               targetSpeed = getMaxLinearSpeed actualLimiter;
               targetSpeed = (if distance \<le> decelerationRadius this
                              then targetSpeed * (distance / decelerationRadius this)
                              else targetSpeed);
               targetVelocity = Vector2_scale toTarget (targetSpeed / distance);
               targetVelocity =
                 Vector2_limit
                   (Vector2_scale (Vector2_sub targetVelocity (linearVelocity (owner this)))
                      (1 / timeToTarget this))
                   (getMaxLinearAcceleration actualLimiter)
           in steering\<lparr>linear_acc := targetVelocity, angular := 0\<rparr>)"

definition Arrive_calculateRealSteering :: "Arrive \<Rightarrow> SteeringAcceleration \<Rightarrow> SteeringAcceleration" where
  "Arrive_calculateRealSteering this steering = arrive this steering (getPosition (target this))"

section \<open>ReachOrientation\<close>

text \<open>
  The remainder operator \<open>%\<close> of JavaScript on finite numbers with a non-zero divisor:
  the quotient is truncated towards zero, so the result has the sign of the dividend.
\<close>

definition js_rem :: "real \<Rightarrow> real \<Rightarrow> real" where
  "js_rem a b = a - b * of_int (if 0 \<le> a / b then \<lfloor>a / b\<rfloor> else \<lceil>a / b\<rceil>)"

text \<open>
  Modelled from the spec: the constant \<open>PI2\<close> of the module \<open>math/PI2\<close>, which is not
  among the sources. The spec wraps angles to the range from \<open>-\<pi>\<close> to \<open>\<pi>\<close>, a full
  turn of \<open>2\<pi>\<close>; the demo's \<open>MathUtils.PI2\<close> is \<open>Math.PI * 2\<close> as well.
\<close>

definition PI2 :: real where
  "PI2 = 2 * pi"

definition wrapAngleAroundZero :: "real \<Rightarrow> real" where
  "wrapAngleAroundZero a =
     (if a \<ge> 0 then
        (let rotation = js_rem a PI2;
             rotation = (if rotation > pi then rotation - PI2 else rotation)
         in rotation)
      else
        (let rotation = js_rem (- a) PI2;
             rotation = (if rotation > pi then rotation - PI2 else rotation)
         in - rotation))"

record ReachOrientation = SteeringBehavior +
  target :: Location
  alignTolerance :: real
  decelerationRadius :: real
  timeToTarget :: real

definition reachOrientation ::
  "ReachOrientation \<Rightarrow> SteeringAcceleration \<Rightarrow> real \<Rightarrow> SteeringAcceleration" where
  "reachOrientation this steering targetOrientation =
     (let rotation = wrapAngleAroundZero (targetOrientation - orientation (owner this));
          rotationSize = (if rotation < 0 then - rotation else rotation)
      in if rotationSize \<le> alignTolerance this then SteeringAcceleration_setZero steering
         else
           let actualLimiter = getActualLimiter this;
               targetRotation = getMaxAngularSpeed actualLimiter;
               targetRotation = (if rotationSize \<le> decelerationRadius this
                                 then targetRotation * (rotationSize / decelerationRadius this)
                                 else targetRotation);
               targetRotation = targetRotation * (rotation / rotationSize);
               steering = steering\<lparr>angular :=
                 (targetRotation - angularVelocity (owner this)) / timeToTarget this\<rparr>;
               angularAcceleration = (if angular steering < 0 then - angular steering
                                      else angular steering);
               steering = (if angularAcceleration > getMaxAngularAcceleration actualLimiter
                           then steering\<lparr>angular := angular steering *
                                  (getMaxAngularAcceleration actualLimiter / angularAcceleration)\<rparr>
                           else steering)
           in steering\<lparr>linear_acc := Vector2_setZero (linear_acc steering)\<rparr>)"

definition ReachOrientation_calculateRealSteering ::
  "ReachOrientation \<Rightarrow> SteeringAcceleration \<Rightarrow> SteeringAcceleration" where
  "ReachOrientation_calculateRealSteering this steering =
     reachOrientation this steering (getOrientation (target this))"

section \<open>Compound behaviors\<close>

text \<open>
  A child of a compound behavior is any \<open>SteeringBehavior\<close>. Its abstract method is the
  field \<open>calculateRealSteering\<close>: the contents it leaves in the output buffer, given the
  contents it finds there. Changes a child makes to its own fields are not tracked.
\<close>

record Child = SteeringBehavior +
  calculateRealSteering :: "SteeringAcceleration \<Rightarrow> SteeringAcceleration"

definition Child_calculateSteering :: "Child \<Rightarrow> SteeringAcceleration \<Rightarrow> SteeringAcceleration" where
  "Child_calculateSteering b steering = calculateSteering b (calculateRealSteering b) steering"

subsection \<open>BlendedSteering\<close>

record BehaviorAndWeight =
  behavior :: Child
  weight :: real

text \<open>
  The fields \<open>list\<close> and \<open>steering\<close> of the source are \<open>blend_list\<close> and
  \<open>blend_steering\<close> here. The latter is the private buffer the children write to; the
  output buffer \<open>blendedSteering\<close> is another object.
\<close>

record BlendedSteering = SteeringBehavior +
  blend_list :: "BehaviorAndWeight list"
  blend_steering :: SteeringAcceleration

text \<open>The loop over the list: the state is the private buffer and the output buffer.\<close>

fun blend_loop ::
  "BehaviorAndWeight list \<Rightarrow> SteeringAcceleration \<times> SteeringAcceleration \<Rightarrow>
     SteeringAcceleration \<times> SteeringAcceleration" where
  "blend_loop [] (scratch, blendedSteering) = (scratch, blendedSteering)"
| "blend_loop (bw # rest) (scratch, blendedSteering) =
     (let scratch = Child_calculateSteering (behavior bw) scratch;
          blendedSteering = mulAdd blendedSteering scratch (weight bw)
      in blend_loop rest (scratch, blendedSteering))"

definition BlendedSteering_calculateRealSteering ::
  "BlendedSteering \<Rightarrow> SteeringAcceleration \<Rightarrow> SteeringAcceleration \<times> BlendedSteering" where
  "BlendedSteering_calculateRealSteering this blendedSteering =
     (let blendedSteering = SteeringAcceleration_setZero blendedSteering;
          (scratch, blendedSteering) = blend_loop (blend_list this) (blend_steering this, blendedSteering);
          actualLimiter = getActualLimiter this;
          blendedSteering = blendedSteering\<lparr>linear_acc :=
            Vector2_limit (linear_acc blendedSteering) (getMaxLinearAcceleration actualLimiter)\<rparr>;
          blendedSteering =
            (if angular blendedSteering > getMaxAngularAcceleration actualLimiter
             then blendedSteering\<lparr>angular := getMaxAngularAcceleration actualLimiter\<rparr>
             else blendedSteering)
      in (blendedSteering, this\<lparr>blend_steering := scratch\<rparr>))"

definition BlendedSteering_calculateSteering ::
  "BlendedSteering \<Rightarrow> SteeringAcceleration \<Rightarrow> SteeringAcceleration \<times> BlendedSteering" where
  "BlendedSteering_calculateSteering this blendedSteering =
     (if enabled this then BlendedSteering_calculateRealSteering this blendedSteering
      else (SteeringAcceleration_setZero blendedSteering, this))"

subsection \<open>PrioritySteering\<close>

record PrioritySteering = SteeringBehavior +
  epsilon :: real
  behaviors :: "Child list"
  selectedBehaviorIndex :: int

text \<open>
  The loop over the behaviors from index \<open>i\<close> on. The result says whether the loop
  returned from inside (\<open>True\<close>) or ran to its end, and gives the buffer and the selected
  index at that point.
\<close>

fun priority_loop ::
  "real \<Rightarrow> Child list \<Rightarrow> int \<Rightarrow> int \<Rightarrow> SteeringAcceleration \<Rightarrow>
     bool \<times> SteeringAcceleration \<times> int" where
  "priority_loop epsilonSquared [] i selected steering = (False, steering, selected)"
| "priority_loop epsilonSquared (b # rest) i selected steering =
     (let selected = i;
          steering = Child_calculateSteering b steering
      in if calculateSquareMagnitude steering > epsilonSquared then (True, steering, selected)
         else priority_loop epsilonSquared rest (i + 1) selected steering)"

definition PrioritySteering_calculateRealSteering ::
  "PrioritySteering \<Rightarrow> SteeringAcceleration \<Rightarrow> SteeringAcceleration \<times> PrioritySteering" where
  "PrioritySteering_calculateRealSteering this steering =
     (let epsilonSquared = epsilon this * epsilon this;
          n = length (behaviors this);
          (returned, steering, selected) =
            priority_loop epsilonSquared (behaviors this) 0 (- 1) steering;
          this = this\<lparr>selectedBehaviorIndex := selected\<rparr>
      in if returned then (steering, this)
         else ((if n > 0 then steering else SteeringAcceleration_setZero steering), this))"

definition PrioritySteering_calculateSteering ::
  "PrioritySteering \<Rightarrow> SteeringAcceleration \<Rightarrow> SteeringAcceleration \<times> PrioritySteering" where
  "PrioritySteering_calculateSteering this steering =
     (if enabled this then PrioritySteering_calculateRealSteering this steering
      else (SteeringAcceleration_setZero steering, this))"

definition getSelectedBehaviorIndex :: "PrioritySteering \<Rightarrow> int" where
  "getSelectedBehaviorIndex this = selectedBehaviorIndex this"

section \<open>Jump\<close>

text \<open>
  The fields of \<open>Jump\<close> that the airborne-time computation reads or writes. The handler
  of the gravity component is an interface of two methods.
\<close>

record GravityComponentHandler =
  getComponent :: "Vector2 \<Rightarrow> real"
  setComponent :: "Vector2 \<Rightarrow> real \<Rightarrow> Vector2"

record JumpDescriptor =
  takeoffPosition :: Vector2
  landingPosition :: Vector2
  delta :: Vector2

record Jump = SteeringBehavior +
  gravity :: Vector2
  gravityComponentHandler :: GravityComponentHandler
  maxVerticalVelocity :: real
  planarVelocity :: Vector2

text \<open>
  The result is the returned flag, the receiver and \<open>outVelocity\<close>. For \<open>time = 0\<close> the
  factor \<open>1 / time\<close> is infinite in the source: each component of the scaled vector is
  infinite or NaN, so is its squared length once the handler has cleared the gravity
  component, and the comparison is false. That case is written out; the scratch vector
  \<open>planarVelocity\<close> then holds no finite value and is left as it was here.
\<close>

definition checkAirborneTimeAndCalculateVelocity ::
  "Jump \<Rightarrow> Vector2 \<Rightarrow> real \<Rightarrow> JumpDescriptor \<Rightarrow> real \<Rightarrow> bool \<times> Jump \<times> Vector2" where
  "checkAirborneTimeAndCalculateVelocity this outVelocity time jumpDescriptor maxLinearSpeed =
     (if time = 0 then (False, this, outVelocity)
      else
        let h = gravityComponentHandler this;
            pv = Vector2_scale (Vector2_copy (planarVelocity this) (delta jumpDescriptor)) (1 / time);
            pv = setComponent h pv 0;
            this = this\<lparr>planarVelocity := pv\<rparr>
        in if Vector2_sqrLen pv < maxLinearSpeed * maxLinearSpeed then
             (let verticalValue = getComponent h outVelocity;
                  outVelocity = setComponent h (Vector2_copy outVelocity pv) verticalValue
              in (True, this, outVelocity))
           else (False, this, outVelocity))"

text \<open>
  The result is the returned time, the receiver and \<open>outVelocity\<close>. A negative argument
  of the square root makes \<open>sqrtTerm\<close> and both times NaN in the source, both checks
  fail and \<open>-1\<close> is returned; that case is written out, with the scratch vector left as
  it was. For \<open>g = 0\<close> the times are infinite or NaN and the result is \<open>None\<close>: it is
  not represented.
\<close>

definition calculateAirborneTimeAndVelocity ::
  "Jump \<Rightarrow> Vector2 \<Rightarrow> JumpDescriptor \<Rightarrow> real \<Rightarrow> (real \<times> Jump \<times> Vector2) option" where
  "calculateAirborneTimeAndVelocity this outVelocity jumpDescriptor maxLinearSpeed =
     (let h = gravityComponentHandler this;
          g = getComponent h (gravity this);
          radicand = 2 * g * getComponent h (delta jumpDescriptor)
                       + maxVerticalVelocity this * maxVerticalVelocity this
      in if g = 0 then None
         else if radicand < 0 then Some (- 1, this, outVelocity)
         else
           let sqrtTerm = sqrt radicand;
               time = (- maxVerticalVelocity this + sqrtTerm) / g
           in case checkAirborneTimeAndCalculateVelocity this outVelocity time jumpDescriptor
                     maxLinearSpeed of
                (True, this, outVelocity) \<Rightarrow> Some (time, this, outVelocity)
              | (False, this, outVelocity) \<Rightarrow>
                  (let time = (- maxVerticalVelocity this - sqrtTerm) / g
                   in case checkAirborneTimeAndCalculateVelocity this outVelocity time
                             jumpDescriptor maxLinearSpeed of
                        (True, this, outVelocity) \<Rightarrow> Some (time, this, outVelocity)
                      | (False, this, outVelocity) \<Rightarrow> Some (- 1, this, outVelocity)))"

section \<open>RadiusProximity\<close>

text \<open>
  The agents of a proximity are objects shared with the rest of the program: the test
  \<open>currentAgent !== this.owner\<close> compares references, and \<open>setTagged\<close> changes the
  agent for every holder of it. So the agents live in a store, from references to
  objects, and the proximity holds references. The field \<open>owner\<close> of \<open>ProximityBase\<close>
  is \<open>proximity_owner\<close> here.

  A \<open>ProximityCallback\<close> has one method, \<open>reportNeighbor\<close>. It is a function of the
  callback object \<open>'c\<close>, the store and the reported agent, which gives the returned flag
  and the callback object afterwards; it does not write to the store.

  The tick id is obtained from the injected accessor \<open>getTickId\<close>; the value it returns at
  this call is the argument \<open>currentTime\<close>.
\<close>

type_synonym ref = nat

type_synonym heap = "ref \<Rightarrow> Steerable"

type_synonym 'c ProximityCallback = "'c \<Rightarrow> heap \<Rightarrow> ref \<Rightarrow> bool \<times> 'c"

record RadiusProximity =
  proximity_owner :: ref
  agents :: "ref list"
  radius :: real
  lastTime :: real

text \<open>The constructor: \<open>lastTime\<close> starts as \<open>0\<close>.\<close>

definition RadiusProximity_new :: "ref \<Rightarrow> ref list \<Rightarrow> real \<Rightarrow> RadiusProximity" where
  "RadiusProximity_new own ags r = \<lparr>proximity_owner = own, agents = ags, radius = r, lastTime = 0\<rparr>"

definition setTagged :: "heap \<Rightarrow> ref \<Rightarrow> bool \<Rightarrow> heap" where
  "setTagged h a b = h(a := (h a)\<lparr>tagged := b\<rparr>)"

text \<open>The loop of a new frame; the state is the store, the callback and the count.\<close>

fun scan_agents ::
  "'c ProximityCallback \<Rightarrow> RadiusProximity \<Rightarrow> Vector2 \<Rightarrow> ref list \<Rightarrow> heap \<times> 'c \<times> nat \<Rightarrow>
     heap \<times> 'c \<times> nat" where
  "scan_agents callback this ownerPosition [] (h, c, neighborCount) = (h, c, neighborCount)"
| "scan_agents callback this ownerPosition (currentAgent # rest) (h, c, neighborCount) =
     (if currentAgent \<noteq> proximity_owner this then
        (let squareDistance = Vector2_dst2 ownerPosition (position (h currentAgent));
             range_sum = radius this + boundingRadius (h currentAgent)
         in if squareDistance < range_sum * range_sum then
              (case callback c h currentAgent of
                 (True, c) \<Rightarrow>
                   scan_agents callback this ownerPosition rest
                     (setTagged h currentAgent True, c, neighborCount + 1)
               | (False, c) \<Rightarrow>
                   scan_agents callback this ownerPosition rest
                     (setTagged h currentAgent False, c, neighborCount))
            else scan_agents callback this ownerPosition rest
                   (setTagged h currentAgent False, c, neighborCount))
      else scan_agents callback this ownerPosition rest
             (setTagged h currentAgent False, c, neighborCount))"

text \<open>The loop of a frame already seen: the tagged agents are reported again.\<close>

fun replay_agents ::
  "'c ProximityCallback \<Rightarrow> RadiusProximity \<Rightarrow> ref list \<Rightarrow> heap \<times> 'c \<times> nat \<Rightarrow>
     heap \<times> 'c \<times> nat" where
  "replay_agents callback this [] (h, c, neighborCount) = (h, c, neighborCount)"
| "replay_agents callback this (currentAgent # rest) (h, c, neighborCount) =
     (if currentAgent \<noteq> proximity_owner this \<and> tagged (h currentAgent) then
        (case callback c h currentAgent of
           (True, c) \<Rightarrow> replay_agents callback this rest (h, c, neighborCount + 1)
         | (False, c) \<Rightarrow> replay_agents callback this rest (h, c, neighborCount))
      else replay_agents callback this rest (h, c, neighborCount))"

definition findNeighbors ::
  "'c ProximityCallback \<Rightarrow> real \<Rightarrow> RadiusProximity \<Rightarrow> heap \<Rightarrow> 'c \<Rightarrow>
     nat \<times> RadiusProximity \<times> heap \<times> 'c" where
  "findNeighbors callback currentTime this h c =
     (if lastTime this \<noteq> currentTime then
        (let this = this\<lparr>lastTime := currentTime\<rparr>;
             ownerPosition = position (h (proximity_owner this));
             (h, c, neighborCount) = scan_agents callback this ownerPosition (agents this) (h, c, 0)
         in (neighborCount, this, h, c))
      else
        (let (h, c, neighborCount) = replay_agents callback this (agents this) (h, c, 0)
         in (neighborCount, this, h, c)))"

section \<open>CollisionAvoidance\<close>

text \<open>
  This behavior is where the source itself reasons about NaN: the comment in
  \<open>reportNeighbor\<close> says that \<open>0/0\<close> would give a NaN time, that every comparison with
  NaN is false, and that the NaN would then become the shortest time. So the time to
  collision, the minimum separation and the two fields that store them are JavaScript
  numbers with their special values, and a comparison has the value the source gives it.
  The operands that are lengths, squared lengths and products of finite vectors stay
  real numbers.
\<close>

datatype number = Finite real | PosInfinity | NegInfinity | NaN

text \<open>
  The quotient \<open>a / b\<close> of two finite numbers. The divisors in this class are sums of
  squares, so a zero divisor is the positive zero.
\<close>

definition js_div :: "real \<Rightarrow> real \<Rightarrow> number" where
  "js_div a b =
     (if b \<noteq> 0 then Finite (a / b)
      else if a = 0 then NaN
      else if a > 0 then PosInfinity
      else NegInfinity)"

text \<open>The comparisons \<open>a <= b\<close> and \<open>a < b\<close>; \<open>a >= b\<close> is \<open>b <= a\<close> and \<open>a > b\<close> is \<open>b < a\<close>.\<close>

fun num_le :: "number \<Rightarrow> number \<Rightarrow> bool" where
  "num_le NaN b = False"
| "num_le a NaN = False"
| "num_le (Finite x) (Finite y) = (x \<le> y)"
| "num_le NegInfinity b = True"
| "num_le a PosInfinity = True"
| "num_le a b = False"

fun num_less :: "number \<Rightarrow> number \<Rightarrow> bool" where
  "num_less NaN b = False"
| "num_less a NaN = False"
| "num_less (Finite x) (Finite y) = (x < y)"
| "num_less NegInfinity NegInfinity = False"
| "num_less NegInfinity b = True"
| "num_less PosInfinity b = False"
| "num_less (Finite x) PosInfinity = True"
| "num_less (Finite x) NegInfinity = False"

text \<open>The product of a finite number and a number, and a finite number minus a number.\<close>

fun num_times_fin :: "real \<Rightarrow> number \<Rightarrow> number" where
  "num_times_fin x (Finite y) = Finite (x * y)"
| "num_times_fin x NaN = NaN"
| "num_times_fin x PosInfinity =
     (if x = 0 then NaN else if x > 0 then PosInfinity else NegInfinity)"
| "num_times_fin x NegInfinity =
     (if x = 0 then NaN else if x > 0 then NegInfinity else PosInfinity)"

fun fin_minus_num :: "real \<Rightarrow> number \<Rightarrow> number" where
  "fin_minus_num x (Finite y) = Finite (x - y)"
| "fin_minus_num x NaN = NaN"
| "fin_minus_num x PosInfinity = NegInfinity"
| "fin_minus_num x NegInfinity = PosInfinity"

text \<open>
  \<open>firstNeighbor\<close> is \<open>None\<close> for \<open>null\<close>. The proximity of the group behavior is a
  \<open>RadiusProximity\<close>. During \<open>calculateRealSteering\<close> the field \<open>relativePosition\<close>
  is the vector \<open>steering.linear\<close> itself.
\<close>

record CollisionAvoidance = SteeringBehavior +
  proximity :: RadiusProximity
  shortestTime :: number
  firstNeighbor :: "ref option"
  firstMinSeparation :: number
  firstDistance :: real
  firstRelativePosition :: Vector2
  firstRelativeVelocity :: Vector2
  relativePosition :: Vector2
  relativeVelocity :: Vector2

definition reportNeighbor :: "CollisionAvoidance ProximityCallback" where
  "reportNeighbor this h neighbor =
     (let this = this\<lparr>relativePosition :=
            Vector2_sub (Vector2_copy (relativePosition this) (position (h neighbor)))
              (position (owner this))\<rparr>;
          this = this\<lparr>relativeVelocity :=
            Vector2_sub (Vector2_copy (relativeVelocity this) (linearVelocity (h neighbor)))
              (linearVelocity (owner this))\<rparr>;
          relativeSpeed2 = Vector2_sqrLen (relativeVelocity this)
      in if relativeSpeed2 = 0 then (False, this)
         else
           let timeToCollision =
                 js_div (- Vector2_dot (relativePosition this) (relativeVelocity this))
                   relativeSpeed2
           in if num_le timeToCollision (Finite 0) \<or> num_le (shortestTime this) timeToCollision
              then (False, this)
              else
                let distance = Vector2_len (relativePosition this);
                    minSeparation =
                      fin_minus_num distance (num_times_fin (sqrt relativeSpeed2) timeToCollision)
                in if num_less
                        (Finite (boundingRadius (owner this) + boundingRadius (h neighbor)))
                        minSeparation
                   then (False, this)
                   else (True, this\<lparr>shortestTime := timeToCollision,
                                     firstNeighbor := Some neighbor,
                                     firstMinSeparation := minSeparation,
                                     firstDistance := distance,
                                     firstRelativePosition :=
                                       Vector2_copy (firstRelativePosition this) (relativePosition this),
                                     firstRelativeVelocity :=
                                       Vector2_copy (firstRelativeVelocity this) (relativeVelocity this)\<rparr>))"

text \<open>
  The result is the output buffer, the receiver and the store. It is \<open>None\<close> only where
  the source would scale a vector by a \<open>shortestTime\<close> that is not finite, which gives
  a vector that is not represented.
\<close>

definition CollisionAvoidance_calculateRealSteering ::
  "CollisionAvoidance \<Rightarrow> real \<Rightarrow> heap \<Rightarrow> SteeringAcceleration \<Rightarrow>
     (SteeringAcceleration \<times> CollisionAvoidance \<times> heap) option" where
  "CollisionAvoidance_calculateRealSteering this currentTime h steering =
     (let this = this\<lparr>shortestTime := PosInfinity, firstNeighbor := None,
                      firstMinSeparation := Finite 0,
                      firstDistance := 0, relativePosition := linear_acc steering\<rparr>;
          (neighborCount, prox, h, this) =
            findNeighbors reportNeighbor currentTime (proximity this) h this;
          this = this\<lparr>proximity := prox\<rparr>;
          steering = steering\<lparr>linear_acc := relativePosition this\<rparr>
      in case firstNeighbor this of
           None \<Rightarrow>
             (let steering = SteeringAcceleration_setZero steering
              in Some (steering, this\<lparr>relativePosition := linear_acc steering\<rparr>, h))
         | Some first \<Rightarrow>
             if neighborCount = 0 then
               (let steering = SteeringAcceleration_setZero steering
                in Some (steering, this\<lparr>relativePosition := linear_acc steering\<rparr>, h))
             else
               (let rp =
                      (if num_le (firstMinSeparation this) (Finite 0) \<or>
                          firstDistance this < boundingRadius (owner this) + boundingRadius (h first)
                       then Some (Vector2_sub (Vector2_copy (relativePosition this) (position (h first)))
                                    (position (owner this)))
                       else (case shortestTime this of
                               Finite t \<Rightarrow>
                                 Some (Vector2_scaleAndAdd
                                         (Vector2_copy (relativePosition this) (firstRelativePosition this))
                                         (firstRelativeVelocity this) t)
                             | _ \<Rightarrow> None))
                in case rp of
                     None \<Rightarrow> None
                   | Some rp \<Rightarrow>
                       (let rp = Vector2_scale (Vector2_nor rp)
                                   (- getMaxLinearAcceleration (getActualLimiter this));
                            steering = steering\<lparr>linear_acc := rp, angular := 0\<rparr>
                        in Some (steering, this\<lparr>relativePosition := rp\<rparr>, h))))"

section \<open>LinePath\<close>

text \<open>
  The fields \<open>begin\<close>, \<open>end\<close> and \<open>length\<close> of a segment are \<open>seg_begin\<close>, \<open>seg_end\<close> and
  \<open>seg_length\<close> here. The constructor of \<open>Segment\<close> leaves \<open>cumulativeLength\<close>
  unassigned, which is \<open>None\<close>. An \<open>Error\<close> carries its message; the waypoint list is
  \<open>None\<close> for \<open>null\<close>.
\<close>

datatype error = Error string

record Segment =
  seg_begin :: Vector2
  seg_end :: Vector2
  seg_length :: real
  cumulativeLength :: "real option"

definition Segment_new :: "Vector2 \<Rightarrow> Vector2 \<Rightarrow> Segment" where
  "Segment_new b e = \<lparr>seg_begin = b, seg_end = e, seg_length = Vector2_dst b e,
                       cumulativeLength = None\<rparr>"

record LinePath =
  segments :: "Segment list"
  isOpen :: bool
  pathLength :: real
  nearestPointOnCurrentSegment :: Vector2
  nearestPointOnPath :: Vector2
  tmpB :: Vector2
  tmpC :: Vector2

text \<open>
  The loop of \<open>createPath\<close>, from \<open>i\<close> up to and including the number of waypoints; the
  state is \<open>curr\<close> (here \<open>curr_wp\<close>), \<open>pathLength\<close> and the segments pushed so far.
\<close>

function createPath_loop ::
  "bool \<Rightarrow> Vector2 list \<Rightarrow> nat \<Rightarrow> Vector2 \<Rightarrow> real \<times> Segment list \<Rightarrow> real \<times> Segment list" where
  "createPath_loop is_open waypoints i curr_wp (len, segs) =
     (if i \<le> length waypoints then
        (let prev_wp = curr_wp;
             next = (if i < length waypoints then Some (waypoints ! i)
                     else if is_open then None
                     else Some (waypoints ! 0))
         in case next of
              None \<Rightarrow> (len, segs)
            | Some curr_wp \<Rightarrow>
                (let segment = Segment_new prev_wp curr_wp;
                     len = len + seg_length segment;
                     segment = segment\<lparr>cumulativeLength := Some len\<rparr>
                 in createPath_loop is_open waypoints (i + 1) curr_wp (len, segs @ [segment])))
      else (len, segs))"
  by pat_completeness auto
termination
  by (relation "measure (\<lambda>(is_open, waypoints, i, curr_wp, st). Suc (length waypoints) - i)") auto

text \<open>
  \<open>createPath\<close> reads \<open>this._isOpen\<close> and assigns \<open>segments\<close> and \<open>pathLength\<close>; the
  result is the pair of the two.
\<close>

definition createPath :: "bool \<Rightarrow> Vector2 list option \<Rightarrow> error + Segment list \<times> real" where
  "createPath is_open waypoints =
     (case waypoints of
        None \<Rightarrow> Inl (Error ''waypoints cannot be null and must contain at least two (2) waypoints'')
      | Some ws \<Rightarrow>
          if length ws < 2
          then Inl (Error ''waypoints cannot be null and must contain at least two (2) waypoints'')
          else (case createPath_loop is_open ws 1 (ws ! 0) (0, []) of
                  (len, segs) \<Rightarrow> Inr (segs, len)))"

text \<open>
  The constructor. After \<open>createPath\<close> has returned, \<open>waypoints[0]\<close> exists; reading it
  from \<open>null\<close> or from an empty array would be a \<open>TypeError\<close>.
\<close>

definition LinePath_new :: "Vector2 list option \<Rightarrow> bool \<Rightarrow> error + LinePath" where
  "LinePath_new waypoints is_open =
     (case createPath is_open waypoints of
        Inl e \<Rightarrow> Inl e
      | Inr (segs, len) \<Rightarrow>
          (case waypoints of
             Some (waypoint # _) \<Rightarrow>
               Inr \<lparr>segments = segs, isOpen = is_open, pathLength = len,
                    nearestPointOnCurrentSegment = Vector2_clone waypoint,
                    nearestPointOnPath = Vector2_clone waypoint,
                    tmpB = Vector2_clone waypoint, tmpC = Vector2_clone waypoint\<rparr>
           | _ \<Rightarrow> Inl (Error ''TypeError'')))"

section \<open>Auxiliary definitions for the statements\<close>

text \<open>
  The successive contents of the buffer that a list of children is run on: each child
  writes to the buffer the previous one has left.
\<close>

fun child_outputs :: "Child list \<Rightarrow> SteeringAcceleration \<Rightarrow> SteeringAcceleration list" where
  "child_outputs [] s = []"
| "child_outputs (b # bs) s =
     (let s' = Child_calculateSteering b s in s' # child_outputs bs s')"

text \<open>Concrete objects for the instances below.\<close>

definition example_owner :: Steerable where
  "example_owner =
     \<lparr>getZeroLinearSpeedThreshold = 1 / 1000, getMaxLinearSpeed = 10,
      getMaxLinearAcceleration = 5, getMaxAngularSpeed = 3, getMaxAngularAcceleration = 1,
      position = \<lparr>data0 = 0, data1 = 0\<rparr>, orientation = 0,
      linearVelocity = \<lparr>data0 = 0, data1 = 0\<rparr>, angularVelocity = 0,
      boundingRadius = 0, tagged = False\<rparr>"

text \<open>A child that always writes the linear acceleration \<open>(a, b)\<close> and the angular one \<open>w\<close>.\<close>

definition constant_child :: "real \<Rightarrow> real \<Rightarrow> real \<Rightarrow> Child" where
  "constant_child a b w =
     \<lparr>owner = example_owner, limiter = None, enabled = True,
      calculateRealSteering = (\<lambda>s. s\<lparr>linear_acc := \<lparr>data0 = a, data1 = b\<rparr>, angular := w\<rparr>)\<rparr>"

text \<open>Children of magnitudes 0, 0, 5 and 3 under the threshold 1.\<close>

definition example_priority :: PrioritySteering where
  "example_priority =
     \<lparr>owner = example_owner, limiter = None, enabled = True, epsilon = 1,
      behaviors = [constant_child 0 0 0, constant_child 0 0 0, constant_child 3 4 0,
                   constant_child 3 0 0],
      selectedBehaviorIndex = - 1\<rparr>"

text \<open>A second child that only turns, by more than the threshold.\<close>

definition example_priority_angular :: PrioritySteering where
  "example_priority_angular =
     \<lparr>owner = example_owner, limiter = None, enabled = True, epsilon = 1,
      behaviors = [constant_child 0 0 0, constant_child 0 0 (- 2)],
      selectedBehaviorIndex = - 1\<rparr>"

definition zero_steering :: SteeringAcceleration where
  "zero_steering = \<lparr>linear_acc = \<lparr>data0 = 0, data1 = 0\<rparr>, angular = 0\<rparr>"

text \<open>
  A callback wrapped so that it records, in order, each agent it is given and the flag
  it returns. The recorded list is what a proximity has reported.
\<close>

definition logging :: "'c ProximityCallback \<Rightarrow> ('c \<times> (ref \<times> bool) list) ProximityCallback" where
  "logging callback =
     (\<lambda>(c, reported) h a. case callback c h a of (b, c') \<Rightarrow> (b, (c', reported @ [(a, b)])))"

text \<open>The test of \<open>RadiusProximity\<close> on an agent, with the owner's position read from the store.\<close>

definition within_radius :: "RadiusProximity \<Rightarrow> heap \<Rightarrow> ref \<Rightarrow> bool" where
  "within_radius this h a \<longleftrightarrow>
     Vector2_dst2 (position (h (proximity_owner this))) (position (h a))
       < (radius this + boundingRadius (h a)) * (radius this + boundingRadius (h a))"

text \<open>Two stores that differ at most in the tags of their objects.\<close>

definition same_bodies :: "heap \<Rightarrow> heap \<Rightarrow> bool" where
  "same_bodies h h' \<longleftrightarrow>
     (\<forall>r. position (h' r) = position (h r) \<and> boundingRadius (h' r) = boundingRadius (h r) \<and>
          linearVelocity (h' r) = linearVelocity (h r))"

text \<open>
  The scenario of three agents at \<open>(0,0)\<close>, \<open>(3,0)\<close> and \<open>(10,0)\<close> with zero bounding
  radii, the first being the owner, a radius of 5 and a callback that accepts every agent.
\<close>

definition agent_at :: "real \<Rightarrow> real \<Rightarrow> Steerable" where
  "agent_at a b = example_owner\<lparr>position := \<lparr>data0 = a, data1 = b\<rparr>\<rparr>"

definition example_heap :: heap where
  "example_heap = (\<lambda>r. if r = 0 then agent_at 0 0 else if r = 1 then agent_at 3 0 else agent_at 10 0)"

definition example_proximity :: RadiusProximity where
  "example_proximity = \<lparr>proximity_owner = 0, agents = [0, 1, 2], radius = 5, lastTime = 0\<rparr>"

definition accept_all :: "unit ProximityCallback" where
  "accept_all c h a = (True, c)"

text \<open>
  An \<open>Arrive\<close> and a \<open>ReachOrientation\<close> of the example owner, which stands at the
  origin, at rest, facing the angle 0.
\<close>

definition example_arrive :: Arrive where
  "example_arrive =
     \<lparr>owner = example_owner, limiter = None, enabled = True,
      Arrive.target = \<lparr>getPosition = \<lparr>data0 = 3, data1 = 4\<rparr>, getOrientation = 0\<rparr>,
      arrivalTolerance = 1, Arrive.decelerationRadius = 10, Arrive.timeToTarget = 1 / 10\<rparr>"

definition example_reach :: ReachOrientation where
  "example_reach =
     \<lparr>owner = example_owner, limiter = None, enabled = True,
      ReachOrientation.target = \<lparr>getPosition = \<lparr>data0 = 0, data1 = 0\<rparr>, getOrientation = 1\<rparr>,
      alignTolerance = 1 / 100, ReachOrientation.decelerationRadius = 2,
      ReachOrientation.timeToTarget = 1 / 10\<rparr>"

text \<open>
  The quantities of the collision prediction for an owner and a neighbor: the time to
  the closest approach, minus the relative position times the relative velocity over
  the squared relative speed, and the separation at that time. A neighbor is a
  candidate, given the shortest time found so far, when none of the rejections
  applies. The two quotients are meant for a neighbor whose relative velocity is not
  zero, which is the first condition of a candidate.
\<close>

definition time_to_closest_approach :: "Steerable \<Rightarrow> Steerable \<Rightarrow> real" where
  "time_to_closest_approach own nb =
     (let relPos = Vector2_sub (position nb) (position own);
          relVel = Vector2_sub (linearVelocity nb) (linearVelocity own)
      in - Vector2_dot relPos relVel / Vector2_sqrLen relVel)"

definition minimum_separation :: "Steerable \<Rightarrow> Steerable \<Rightarrow> real" where
  "minimum_separation own nb =
     (let relPos = Vector2_sub (position nb) (position own);
          relVel = Vector2_sub (linearVelocity nb) (linearVelocity own)
      in Vector2_len relPos - Vector2_len relVel * time_to_closest_approach own nb)"

definition collision_candidate :: "Steerable \<Rightarrow> number \<Rightarrow> Steerable \<Rightarrow> bool" where
  "collision_candidate own shortest nb \<longleftrightarrow>
     linearVelocity nb \<noteq> linearVelocity own \<and>
     0 < time_to_closest_approach own nb \<and>
     \<not> num_le shortest (Finite (time_to_closest_approach own nb)) \<and>
     minimum_separation own nb \<le> boundingRadius own + boundingRadius nb"

text \<open>
  The neighbors of a call of \<open>findNeighbors\<close>: the agents it gives to the callback. In a
  new frame they are the agents other than the owner within the radius, in a frame
  already seen the tagged agents other than the owner.
\<close>

definition neighbors :: "RadiusProximity \<Rightarrow> real \<Rightarrow> heap \<Rightarrow> ref list" where
  "neighbors this currentTime h =
     (if lastTime this \<noteq> currentTime
      then filter (\<lambda>a. a \<noteq> proximity_owner this \<and> within_radius this h a) (agents this)
      else filter (\<lambda>a. a \<noteq> proximity_owner this \<and> tagged (h a)) (agents this))"

text \<open>
  What \<open>findNeighbors\<close> has to leave in the behavior, given the neighbors \<open>ns\<close> it
  has reported: without a candidate among them no first neighbor and the shortest time
  still infinite; otherwise the first neighbor is a candidate among them, the stored time
  and separation are its own, and no candidate among them has an earlier time.
\<close>

definition most_imminent :: "Steerable \<Rightarrow> heap \<Rightarrow> ref list \<Rightarrow> CollisionAvoidance \<Rightarrow> bool" where
  "most_imminent own h ns c \<longleftrightarrow>
     (case firstNeighbor c of
        None \<Rightarrow>
          shortestTime c = PosInfinity \<and>
          (\<forall>a\<in>set ns. \<not> collision_candidate own PosInfinity (h a))
      | Some b \<Rightarrow>
          b \<in> set ns \<and> collision_candidate own PosInfinity (h b) \<and>
          shortestTime c = Finite (time_to_closest_approach own (h b)) \<and>
          firstMinSeparation c = Finite (minimum_separation own (h b)) \<and>
          (\<forall>a\<in>set ns. collision_candidate own PosInfinity (h a) \<longrightarrow>
             time_to_closest_approach own (h b) \<le> time_to_closest_approach own (h a)))"

text \<open>A first neighbor is only ever stored together with a finite time and separation.\<close>

definition finite_when_found :: "CollisionAvoidance \<Rightarrow> bool" where
  "finite_when_found c \<longleftrightarrow>
     (firstNeighbor c = None \<or>
      (\<exists>t m. shortestTime c = Finite t \<and> firstMinSeparation c = Finite m))"

text \<open>A \<open>CollisionAvoidance\<close> of the example owner on the example proximity, and moving agents.\<close>

definition example_avoidance :: CollisionAvoidance where
  "example_avoidance =
     \<lparr>owner = example_owner, limiter = None, enabled = True,
      proximity = example_proximity, shortestTime = PosInfinity, firstNeighbor = None,
      firstMinSeparation = Finite 0, firstDistance = 0,
      firstRelativePosition = \<lparr>data0 = 0, data1 = 0\<rparr>,
      firstRelativeVelocity = \<lparr>data0 = 0, data1 = 0\<rparr>,
      relativePosition = \<lparr>data0 = 0, data1 = 0\<rparr>,
      relativeVelocity = \<lparr>data0 = 0, data1 = 0\<rparr>\<rparr>"

definition agent_moving :: "real \<Rightarrow> real \<Rightarrow> real \<Rightarrow> real \<Rightarrow> Steerable" where
  "agent_moving a b va vb = (agent_at a b)\<lparr>linearVelocity := \<lparr>data0 = va, data1 = vb\<rparr>\<rparr>"

text \<open>
  The example store with the agent at \<open>(3,0)\<close> heading for the owner, and the example
  store with the agent at \<open>(10,0)\<close>, which is out of the radius, heading for the owner.
\<close>

definition example_heap_near_approaching :: heap where
  "example_heap_near_approaching =
     (\<lambda>r. if r = 0 then agent_at 0 0 else if r = 1 then agent_moving 3 0 (- 1) 0
          else agent_at 10 0)"

definition example_heap_far_approaching :: heap where
  "example_heap_far_approaching =
     (\<lambda>r. if r = 0 then agent_at 0 0 else if r = 1 then agent_at 3 0
          else agent_moving 10 0 (- 1) 0)"

text \<open>
  A \<open>BlendedSteering\<close> of the example owner, whose caps are 5 for the linear and 1 for
  the angular acceleration, with one child of weight 1 that turns by \<open>-10\<close>.
\<close>

definition example_blended :: BlendedSteering where
  "example_blended =
     \<lparr>owner = example_owner, limiter = None, enabled = True,
      blend_list = [\<lparr>behavior = constant_child 0 0 (- 10), weight = 1\<rparr>],
      blend_steering = zero_steering\<rparr>"

text \<open>
  A jump down by 4 and across by 1 under the gravity \<open>(0, -1)\<close>, which acts along the
  second component, with the vertical take-off velocity 1.
\<close>

definition vertical_axis :: GravityComponentHandler where
  "vertical_axis = \<lparr>getComponent = data1, setComponent = (\<lambda>v val. v\<lparr>data1 := val\<rparr>)\<rparr>"

definition example_jump :: Jump where
  "example_jump =
     \<lparr>owner = example_owner, limiter = None, enabled = True,
      gravity = \<lparr>data0 = 0, data1 = - 1\<rparr>, gravityComponentHandler = vertical_axis,
      maxVerticalVelocity = 1, planarVelocity = \<lparr>data0 = 0, data1 = 0\<rparr>\<rparr>"

definition example_descriptor :: JumpDescriptor where
  "example_descriptor =
     \<lparr>takeoffPosition = \<lparr>data0 = 0, data1 = 4\<rparr>, landingPosition = \<lparr>data0 = 1, data1 = 0\<rparr>,
      delta = \<lparr>data0 = 1, data1 = - 4\<rparr>\<rparr>"

section \<open>Properties of the vector operations\<close>

lemmas Vector2_defs =
  Vector2_clone_def Vector2_len_def Vector2_sqrLen_def Vector2_copy_def Vector2_sub_def
  Vector2_nor_def Vector2_add_def Vector2_dot_def Vector2_scale_def Vector2_scaleAndAdd_def
  Vector2_dst_def Vector2_dst2_def Vector2_isZero_def Vector2_setZero_def
  vec2_sqrLen_def vec2_len_def vec2_sub_def vec2_add_def vec2_scale_def vec2_scaleAndAdd_def
  vec2_dot_def vec2_squaredDistance_def vec2_distance_def

lemma Vector2_len_nonneg: "0 \<le> Vector2_len v"
  by (simp add: Vector2_defs)

lemma Vector2_sqrLen_len: "Vector2_sqrLen v = (Vector2_len v)\<^sup>2"
  by (simp add: Vector2_defs power2_eq_square)

lemma Vector2_len_sqrLen: "Vector2_len v = sqrt (Vector2_sqrLen v)"
  by (simp add: Vector2_defs)

lemma Vector2_len_scale: "Vector2_len (Vector2_scale v c) = \<bar>c\<bar> * Vector2_len v"
proof -
  have "data0 v * c * (data0 v * c) + data1 v * c * (data1 v * c)
      = c\<^sup>2 * (data0 v * data0 v + data1 v * data1 v)"
    by (simp add: power2_eq_square algebra_simps)
  then show ?thesis
    by (simp add: Vector2_defs real_sqrt_mult)
qed

lemma Vector2_sqrLen_gt_iff:
  assumes "0 \<le> L"
  shows "Vector2_sqrLen v > L * L \<longleftrightarrow> Vector2_len v > L"
proof -
  have "L * L < (Vector2_len v)\<^sup>2 \<longleftrightarrow> L < Vector2_len v"
    using assms Vector2_len_nonneg [of v]
    by (metis abs_of_nonneg power2_eq_square real_sqrt_abs2 real_sqrt_less_iff real_sqrt_abs)
  then show ?thesis
    by (simp add: Vector2_sqrLen_len)
qed

lemma Vector2_limit_eq:
  assumes "0 \<le> L"
  shows "Vector2_limit v L =
    (if Vector2_len v > L then Vector2_scale v (L / Vector2_len v) else v)"
proof (cases "Vector2_len v > L")
  case True
  then have pos: "0 < Vector2_len v" using assms by simp
  have "sqrt (L * L / Vector2_sqrLen v) = L / Vector2_len v"
    using assms pos
    by (simp add: Vector2_sqrLen_len real_sqrt_divide power2_eq_square real_sqrt_mult)
  with True show ?thesis
    using Vector2_sqrLen_gt_iff [OF assms, of v]
    by (simp add: Vector2_limit_def Vector2_limit2_def)
next
  case False
  then show ?thesis
    using Vector2_sqrLen_gt_iff [OF assms, of v]
    by (simp add: Vector2_limit_def Vector2_limit2_def)
qed

lemma Vector2_len_limit:
  assumes "0 \<le> L"
  shows "Vector2_len (Vector2_limit v L) = (if Vector2_len v > L then L else Vector2_len v)"
  using assms by (simp add: Vector2_limit_eq Vector2_len_scale)

text \<open>
  Claim C9. For every vector \<open>v\<close>: \<open>v.clone().sub(v)\<close> is the zero vector, \<open>v.scale(1)\<close>
  is \<open>v\<close>, and for every non-negative \<open>L\<close> the vector \<open>v.limit(L)\<close> is no longer than
  \<open>v\<close> and is \<open>v\<close> itself whenever the length of \<open>v\<close> is at most \<open>L\<close>.
\<close>

theorem Vector2_laws:
  "Vector2_isZero (Vector2_sub (Vector2_clone v) v) \<and>
   Vector2_scale v 1 = v \<and>
   (0 \<le> L \<longrightarrow>
      Vector2_len (Vector2_limit v L) \<le> Vector2_len v \<and>
      (Vector2_len v \<le> L \<longrightarrow> Vector2_limit v L = v))"
proof -
  have a: "Vector2_isZero (Vector2_sub (Vector2_clone v) v)"
    by (simp add: Vector2_defs)
  have b: "Vector2_scale v 1 = v"
    by (simp add: Vector2_defs)
  have c: "Vector2_len (Vector2_limit v L) \<le> Vector2_len v" if "0 \<le> L"
    using that by (simp add: Vector2_len_limit)
  have d: "Vector2_limit v L = v" if "0 \<le> L" "Vector2_len v \<le> L"
    using that by (simp add: Vector2_limit_eq)
  from a b c d show ?thesis by blast
qed

theorem Vector2_laws_witness:
  "Vector2_isZero (Vector2_sub (Vector2_clone \<lparr>data0 = 3, data1 = 4\<rparr>) \<lparr>data0 = 3, data1 = 4\<rparr>) \<and>
   Vector2_scale \<lparr>data0 = 3, data1 = 4\<rparr> 1 = \<lparr>data0 = 3, data1 = 4\<rparr> \<and>
   (0::real) \<le> 5 \<and>
   Vector2_len \<lparr>data0 = 3, data1 = 4\<rparr> \<le> 5 \<and>
   Vector2_len (Vector2_limit \<lparr>data0 = 3, data1 = 4\<rparr> 5) \<le> Vector2_len \<lparr>data0 = 3, data1 = 4\<rparr> \<and>
   Vector2_limit \<lparr>data0 = 3, data1 = 4\<rparr> 5 = \<lparr>data0 = 3, data1 = 4\<rparr>"
proof -
  have h: "Vector2_len \<lparr>data0 = 3, data1 = 4\<rparr> \<le> 5"
    by (simp add: Vector2_len_def vec2_len_def)
  show ?thesis
    using h Vector2_laws [of "\<lparr>data0 = 3, data1 = 4\<rparr>" 5] by simp
qed

section \<open>Properties of PrioritySteering\<close>

lemma length_child_outputs [simp]: "length (child_outputs bs s) = length bs"
  by (induction bs arbitrary: s) (simp_all add: Let_def)

lemma child_outputs_Nil_iff [simp]: "child_outputs bs s = [] \<longleftrightarrow> bs = []"
  by (cases bs) (simp_all add: Let_def)

lemmas example_defs =
  constant_child_def zero_steering_def Child_calculateSteering_def calculateSteering_def Let_def

lemma priority_loop_select:
  assumes "k < length bs"
    and "\<forall>j<k. calculateSquareMagnitude (child_outputs bs s ! j) \<le> e"
    and "calculateSquareMagnitude (child_outputs bs s ! k) > e"
  shows "priority_loop e bs i sel s = (True, child_outputs bs s ! k, i + int k)"
  using assms
proof (induction bs arbitrary: k i sel s)
  case Nil
  then show ?case by simp
next
  case (Cons b bs)
  let ?s' = "Child_calculateSteering b s"
  show ?case
  proof (cases k)
    case 0
    with Cons.prems show ?thesis by (simp add: Let_def)
  next
    case (Suc k')
    from Cons.prems(2) Suc have small: "calculateSquareMagnitude ?s' \<le> e"
      by (auto simp: Let_def)
    have lt: "k' < length bs" using Cons.prems(1) Suc by simp
    have prev: "\<forall>j<k'. calculateSquareMagnitude (child_outputs bs ?s' ! j) \<le> e"
    proof (intro allI impI)
      fix j assume "j < k'"
      then have "Suc j < k" using Suc by simp
      with Cons.prems(2) have "calculateSquareMagnitude (child_outputs (b # bs) s ! Suc j) \<le> e"
        by blast
      then show "calculateSquareMagnitude (child_outputs bs ?s' ! j) \<le> e"
        by (simp add: Let_def)
    qed
    have big: "calculateSquareMagnitude (child_outputs bs ?s' ! k') > e"
      using Cons.prems(3) Suc by (simp add: Let_def)
    have "priority_loop e bs (i + 1) i ?s' = (True, child_outputs bs ?s' ! k', i + 1 + int k')"
      by (rule Cons.IH [OF lt prev big])
    with small Suc show ?thesis by (simp add: Let_def)
  qed
qed

lemma priority_loop_none:
  assumes "\<forall>j<length bs. calculateSquareMagnitude (child_outputs bs s ! j) \<le> e"
  shows "priority_loop e bs i sel s =
    (False, last (s # child_outputs bs s), if bs = [] then sel else i + int (length bs) - 1)"
  using assms
proof (induction bs arbitrary: i sel s)
  case Nil
  then show ?case by simp
next
  case (Cons b bs)
  let ?s' = "Child_calculateSteering b s"
  from Cons.prems have small: "calculateSquareMagnitude ?s' \<le> e"
    by (auto simp: Let_def)
  have rest: "\<forall>j<length bs. calculateSquareMagnitude (child_outputs bs ?s' ! j) \<le> e"
  proof (intro allI impI)
    fix j assume "j < length bs"
    then have "Suc j < length (b # bs)" by simp
    with Cons.prems have "calculateSquareMagnitude (child_outputs (b # bs) s ! Suc j) \<le> e"
      by blast
    then show "calculateSquareMagnitude (child_outputs bs ?s' ! j) \<le> e"
      by (simp add: Let_def)
  qed
  have "priority_loop e bs (i + 1) i ?s' =
    (False, last (?s' # child_outputs bs ?s'), if bs = [] then i else i + 1 + int (length bs) - 1)"
    by (rule Cons.IH [OF rest])
  with small show ?case by (simp add: Let_def)
qed

lemma priority_loop_member:
  assumes "bs \<noteq> []"
  shows "fst (snd (priority_loop e bs i sel s)) \<in> set (child_outputs bs s)"
  using assms
proof (induction bs arbitrary: i sel s)
  case Nil
  then show ?case by simp
next
  case (Cons b bs)
  show ?case
  proof (cases "bs = []")
    case True
    then show ?thesis by (simp add: Let_def)
  next
    case False
    from Cons.IH [OF False] show ?thesis by (simp add: Let_def)
  qed
qed

lemma PrioritySteering_first_above:
  assumes "enabled p" "k < length (behaviors p)"
    and "\<forall>j<k. calculateSquareMagnitude (child_outputs (behaviors p) s ! j) \<le> epsilon p * epsilon p"
    and "calculateSquareMagnitude (child_outputs (behaviors p) s ! k) > epsilon p * epsilon p"
  shows "PrioritySteering_calculateSteering p s =
    (child_outputs (behaviors p) s ! k, p\<lparr>selectedBehaviorIndex := int k\<rparr>)"
  using assms(1) priority_loop_select [OF assms(2,3,4), of 0 "- 1"]
  by (simp add: PrioritySteering_calculateSteering_def PrioritySteering_calculateRealSteering_def)

lemma PrioritySteering_none_above:
  assumes "enabled p"
    and "\<forall>j<length (behaviors p).
           calculateSquareMagnitude (child_outputs (behaviors p) s ! j) \<le> epsilon p * epsilon p"
  shows "fst (PrioritySteering_calculateSteering p s) =
    (if behaviors p = [] then SteeringAcceleration_setZero s
     else last (child_outputs (behaviors p) s))"
  using assms(1) priority_loop_none [OF assms(2), of 0 "- 1"]
  by (simp add: PrioritySteering_calculateSteering_def PrioritySteering_calculateRealSteering_def)

lemma PrioritySteering_empty:
  assumes "enabled p" "behaviors p = []"
  shows "PrioritySteering_calculateSteering p s =
    (SteeringAcceleration_setZero s, p\<lparr>selectedBehaviorIndex := - 1\<rparr>)"
  using assms
  by (simp add: PrioritySteering_calculateSteering_def PrioritySteering_calculateRealSteering_def)

lemma PrioritySteering_member:
  assumes "enabled p" "behaviors p \<noteq> []"
  shows "fst (PrioritySteering_calculateSteering p s) \<in> set (child_outputs (behaviors p) s)"
proof -
  obtain r st sel where l: "priority_loop (epsilon p * epsilon p) (behaviors p) 0 (- 1) s = (r, st, sel)"
    by (metis prod_cases3)
  from priority_loop_member [OF assms(2), of "epsilon p * epsilon p" 0 "- 1" s] l
  have "st \<in> set (child_outputs (behaviors p) s)" by simp
  with assms l show ?thesis
    by (simp add: PrioritySteering_calculateSteering_def PrioritySteering_calculateRealSteering_def)
qed

text \<open>
  Claim C2. An enabled \<open>PrioritySteering\<close> runs its children in list order on the
  buffer. If child \<open>k\<close> is the first whose squared magnitude (linear and angular
  together) exceeds the square of \<open>epsilon\<close>, the output is what child \<open>k\<close> wrote and
  \<open>getSelectedBehaviorIndex\<close> is \<open>k\<close> afterwards. If the list is not empty and no child
  exceeds the threshold, the output is what the last child wrote, unchanged. With a
  non-empty list the output is always what some child wrote; the buffer is zeroed by
  the behavior itself only when the list is empty, and then the selected index is \<open>-1\<close>.
  The instance with magnitudes 0, 0, 5, 3 and threshold 1 follows the theorem.
\<close>

theorem PrioritySteering_first_exceeding:
  assumes "enabled p"
  shows
    "(\<forall>k. k < length (behaviors p) \<and>
          (\<forall>j<k. calculateSquareMagnitude (child_outputs (behaviors p) s ! j)
                    \<le> epsilon p * epsilon p) \<and>
          calculateSquareMagnitude (child_outputs (behaviors p) s ! k) > epsilon p * epsilon p \<longrightarrow>
          fst (PrioritySteering_calculateSteering p s) = child_outputs (behaviors p) s ! k \<and>
          getSelectedBehaviorIndex (snd (PrioritySteering_calculateSteering p s)) = int k) \<and>
     (behaviors p \<noteq> [] \<and>
      (\<forall>j<length (behaviors p).
          calculateSquareMagnitude (child_outputs (behaviors p) s ! j) \<le> epsilon p * epsilon p) \<longrightarrow>
      fst (PrioritySteering_calculateSteering p s) = last (child_outputs (behaviors p) s)) \<and>
     (behaviors p \<noteq> [] \<longrightarrow>
      fst (PrioritySteering_calculateSteering p s) \<in> set (child_outputs (behaviors p) s)) \<and>
     (behaviors p = [] \<longrightarrow>
      fst (PrioritySteering_calculateSteering p s) = SteeringAcceleration_setZero s \<and>
      getSelectedBehaviorIndex (snd (PrioritySteering_calculateSteering p s)) = - 1)"
proof (intro conjI allI impI)
  fix k
  assume h: "k < length (behaviors p) \<and>
          (\<forall>j<k. calculateSquareMagnitude (child_outputs (behaviors p) s ! j)
                    \<le> epsilon p * epsilon p) \<and>
          calculateSquareMagnitude (child_outputs (behaviors p) s ! k) > epsilon p * epsilon p"
  then have eq: "PrioritySteering_calculateSteering p s =
    (child_outputs (behaviors p) s ! k, p\<lparr>selectedBehaviorIndex := int k\<rparr>)"
    using PrioritySteering_first_above [OF assms, of k s] by blast
  show "fst (PrioritySteering_calculateSteering p s) = child_outputs (behaviors p) s ! k"
    by (simp add: eq)
  show "getSelectedBehaviorIndex (snd (PrioritySteering_calculateSteering p s)) = int k"
    by (simp add: eq getSelectedBehaviorIndex_def)
next
  assume h: "behaviors p \<noteq> [] \<and>
      (\<forall>j<length (behaviors p).
          calculateSquareMagnitude (child_outputs (behaviors p) s ! j) \<le> epsilon p * epsilon p)"
  then show "fst (PrioritySteering_calculateSteering p s) = last (child_outputs (behaviors p) s)"
    using PrioritySteering_none_above [OF assms, of s] by simp
next
  assume "behaviors p \<noteq> []"
  then show "fst (PrioritySteering_calculateSteering p s) \<in> set (child_outputs (behaviors p) s)"
    by (rule PrioritySteering_member [OF assms])
next
  assume e: "behaviors p = []"
  show "fst (PrioritySteering_calculateSteering p s) = SteeringAcceleration_setZero s"
    by (simp add: PrioritySteering_empty [OF assms e])
  show "getSelectedBehaviorIndex (snd (PrioritySteering_calculateSteering p s)) = - 1"
    by (simp add: PrioritySteering_empty [OF assms e] getSelectedBehaviorIndex_def)
qed


theorem PrioritySteering_first_exceeding_witness:
  "enabled example_priority \<and>
   fst (PrioritySteering_calculateSteering example_priority zero_steering) =
     \<lparr>linear_acc = \<lparr>data0 = 3, data1 = 4\<rparr>, angular = 0\<rparr> \<and>
   getSelectedBehaviorIndex (snd (PrioritySteering_calculateSteering example_priority zero_steering)) = 2 \<and>
   enabled (example_priority\<lparr>epsilon := 10\<rparr>) \<and>
   fst (PrioritySteering_calculateSteering (example_priority\<lparr>epsilon := 10\<rparr>) zero_steering) =
     \<lparr>linear_acc = \<lparr>data0 = 3, data1 = 0\<rparr>, angular = 0\<rparr> \<and>
   enabled (example_priority\<lparr>behaviors := []\<rparr>) \<and>
   fst (PrioritySteering_calculateSteering (example_priority\<lparr>behaviors := []\<rparr>)
          \<lparr>linear_acc = \<lparr>data0 = 7, data1 = 7\<rparr>, angular = 7\<rparr>) =
     \<lparr>linear_acc = \<lparr>data0 = 0, data1 = 0\<rparr>, angular = 0\<rparr> \<and>
   getSelectedBehaviorIndex (snd (PrioritySteering_calculateSteering
       (example_priority\<lparr>behaviors := []\<rparr>) \<lparr>linear_acc = \<lparr>data0 = 7, data1 = 7\<rparr>, angular = 7\<rparr>)) = - 1"
proof -
  have h: "enabled example_priority"
    by (simp add: example_priority_def)
  have outs: "child_outputs (behaviors example_priority) zero_steering =
    [\<lparr>linear_acc = \<lparr>data0 = 0, data1 = 0\<rparr>, angular = 0\<rparr>,
     \<lparr>linear_acc = \<lparr>data0 = 0, data1 = 0\<rparr>, angular = 0\<rparr>,
     \<lparr>linear_acc = \<lparr>data0 = 3, data1 = 4\<rparr>, angular = 0\<rparr>,
     \<lparr>linear_acc = \<lparr>data0 = 3, data1 = 0\<rparr>, angular = 0\<rparr>]"
    by (simp add: example_priority_def example_defs)
  have eps: "epsilon example_priority = 1" and len: "length (behaviors example_priority) = 4"
    by (simp_all add: example_priority_def)
  have mags: "map calculateSquareMagnitude (child_outputs (behaviors example_priority) zero_steering)
    = [0, 0, 25, 9]"
    by (simp add: outs calculateSquareMagnitude_def Vector2_sqrLen_def vec2_sqrLen_def)
  have mag: "calculateSquareMagnitude (child_outputs (behaviors example_priority) zero_steering ! j)
    = [0, 0, 25, 9] ! j" if "j < 4" for j
    using that mags by (metis length_child_outputs len nth_map)
  have below: "\<forall>j<2. calculateSquareMagnitude
      (child_outputs (behaviors example_priority) zero_steering ! j)
        \<le> epsilon example_priority * epsilon example_priority"
  proof (intro allI impI)
    fix j :: nat assume "j < 2"
    then have "j = 0 \<or> j = 1" by auto
    then show "calculateSquareMagnitude
      (child_outputs (behaviors example_priority) zero_steering ! j)
        \<le> epsilon example_priority * epsilon example_priority"
      by (auto simp: mag eps)
  qed
  have above: "calculateSquareMagnitude
      (child_outputs (behaviors example_priority) zero_steering ! 2)
        > epsilon example_priority * epsilon example_priority"
    by (simp add: mag eps)
  have k: "(2::nat) < length (behaviors example_priority)"
    by (simp add: len)
  from PrioritySteering_first_exceeding [OF h, of zero_steering, THEN conjunct1,
      THEN spec [where x = 2]] k below above
  have first: "fst (PrioritySteering_calculateSteering example_priority zero_steering) =
          child_outputs (behaviors example_priority) zero_steering ! 2 \<and>
        getSelectedBehaviorIndex
          (snd (PrioritySteering_calculateSteering example_priority zero_steering)) = int 2"
    by blast
  let ?q = "example_priority\<lparr>epsilon := 10\<rparr>"
  have hq: "enabled ?q" and bq: "behaviors ?q = behaviors example_priority"
    and eq: "epsilon ?q = 10"
    by (simp_all add: example_priority_def)
  have allq: "\<forall>j<length (behaviors ?q). calculateSquareMagnitude
      (child_outputs (behaviors ?q) zero_steering ! j) \<le> epsilon ?q * epsilon ?q"
  proof (intro allI impI)
    fix j :: nat assume "j < length (behaviors ?q)"
    then have j4: "j < 4" by (simp add: bq len)
    then have "j = 0 \<or> j = 1 \<or> j = 2 \<or> j = 3" by auto
    then show "calculateSquareMagnitude (child_outputs (behaviors ?q) zero_steering ! j)
        \<le> epsilon ?q * epsilon ?q"
      unfolding bq eq by (auto simp: mag)
  qed
  have neq: "behaviors ?q \<noteq> []"
    by (simp add: bq example_priority_def)
  from PrioritySteering_first_exceeding [OF hq, of zero_steering, THEN conjunct2, THEN conjunct1]
    neq allq
  have last: "fst (PrioritySteering_calculateSteering ?q zero_steering) =
      last (child_outputs (behaviors ?q) zero_steering)"
    by blast
  let ?e = "example_priority\<lparr>behaviors := []\<rparr>"
  have he: "enabled ?e" and be: "behaviors ?e = []"
    by (simp_all add: example_priority_def)
  note empty = PrioritySteering_first_exceeding [OF he,
      of "\<lparr>linear_acc = \<lparr>data0 = 7, data1 = 7\<rparr>, angular = 7\<rparr>",
      THEN conjunct2, THEN conjunct2, THEN conjunct2, rule_format, OF be]
  from h first hq last he empty show ?thesis
    by (simp add: outs bq SteeringAcceleration_setZero_def Vector2_setZero_def)
qed

lemma square_gt_of_abs_gt:
  fixes e w :: real
  assumes "0 \<le> e" "\<bar>w\<bar> > e"
  shows "e * e < w * w"
proof -
  have "e * e < \<bar>w\<bar> * \<bar>w\<bar>"
    using assms by (intro mult_strict_mono') auto
  then show ?thesis by simp
qed

text \<open>
  Claim C10. The magnitude compared with \<open>epsilon\<close> includes the angular component:
  \<open>calculateSquareMagnitude\<close> is the squared length of the linear part plus the square
  of the angular part. So, for a threshold \<open>epsilon\<close> that is not negative, a child that
  writes a zero linear acceleration and an angular acceleration of absolute value above
  \<open>epsilon\<close> is selected, when the children before it stay at or below the threshold.
\<close>

theorem PrioritySteering_counts_angular:
  "calculateSquareMagnitude a = (Vector2_len (linear_acc a))\<^sup>2 + (angular a)\<^sup>2 \<and>
   (enabled p \<and> 0 \<le> epsilon p \<and> k < length (behaviors p) \<and>
    (\<forall>j<k. calculateSquareMagnitude (child_outputs (behaviors p) s ! j)
              \<le> epsilon p * epsilon p) \<and>
    Vector2_isZero (linear_acc (child_outputs (behaviors p) s ! k)) \<and>
    \<bar>angular (child_outputs (behaviors p) s ! k)\<bar> > epsilon p \<longrightarrow>
    fst (PrioritySteering_calculateSteering p s) = child_outputs (behaviors p) s ! k \<and>
    getSelectedBehaviorIndex (snd (PrioritySteering_calculateSteering p s)) = int k)"
proof (intro conjI impI)
  show "calculateSquareMagnitude a = (Vector2_len (linear_acc a))\<^sup>2 + (angular a)\<^sup>2"
    by (simp add: calculateSquareMagnitude_def Vector2_sqrLen_len power2_eq_square)
next
  assume h: "enabled p \<and> 0 \<le> epsilon p \<and> k < length (behaviors p) \<and>
    (\<forall>j<k. calculateSquareMagnitude (child_outputs (behaviors p) s ! j)
              \<le> epsilon p * epsilon p) \<and>
    Vector2_isZero (linear_acc (child_outputs (behaviors p) s ! k)) \<and>
    \<bar>angular (child_outputs (behaviors p) s ! k)\<bar> > epsilon p"
  let ?o = "child_outputs (behaviors p) s ! k"
  from h have "calculateSquareMagnitude ?o = angular ?o * angular ?o"
    by (simp add: calculateSquareMagnitude_def Vector2_isZero_def Vector2_sqrLen_def vec2_sqrLen_def)
  moreover from h have "epsilon p * epsilon p < angular ?o * angular ?o"
    by (intro square_gt_of_abs_gt) auto
  ultimately have above: "calculateSquareMagnitude ?o > epsilon p * epsilon p"
    by simp
  from h have en: "enabled p" and k: "k < length (behaviors p)"
    and below: "\<forall>j<k. calculateSquareMagnitude (child_outputs (behaviors p) s ! j)
              \<le> epsilon p * epsilon p"
    by blast+
  have eq: "PrioritySteering_calculateSteering p s = (?o, p\<lparr>selectedBehaviorIndex := int k\<rparr>)"
    by (rule PrioritySteering_first_above [OF en k below above])
  show "fst (PrioritySteering_calculateSteering p s) = ?o"
    by (simp add: eq)
  show "getSelectedBehaviorIndex (snd (PrioritySteering_calculateSteering p s)) = int k"
    by (simp add: eq getSelectedBehaviorIndex_def)
qed

theorem PrioritySteering_counts_angular_witness:
  "enabled example_priority_angular \<and> 0 \<le> epsilon example_priority_angular \<and>
   fst (PrioritySteering_calculateSteering example_priority_angular zero_steering) =
     \<lparr>linear_acc = \<lparr>data0 = 0, data1 = 0\<rparr>, angular = - 2\<rparr> \<and>
   getSelectedBehaviorIndex
     (snd (PrioritySteering_calculateSteering example_priority_angular zero_steering)) = 1"
proof -
  let ?p = example_priority_angular
  have outs: "child_outputs (behaviors ?p) zero_steering =
    [\<lparr>linear_acc = \<lparr>data0 = 0, data1 = 0\<rparr>, angular = 0\<rparr>,
     \<lparr>linear_acc = \<lparr>data0 = 0, data1 = 0\<rparr>, angular = - 2\<rparr>]"
    by (simp add: example_priority_angular_def example_defs)
  have eps: "epsilon ?p = 1" and len: "length (behaviors ?p) = 2" and en: "enabled ?p"
    by (simp_all add: example_priority_angular_def)
  have below: "\<forall>j<1. calculateSquareMagnitude (child_outputs (behaviors ?p) zero_steering ! j)
        \<le> epsilon ?p * epsilon ?p"
    by (simp add: outs eps calculateSquareMagnitude_def Vector2_sqrLen_def vec2_sqrLen_def)
  have z: "Vector2_isZero (linear_acc (child_outputs (behaviors ?p) zero_steering ! 1))"
    by (simp add: outs Vector2_isZero_def)
  have w: "\<bar>angular (child_outputs (behaviors ?p) zero_steering ! 1)\<bar> > epsilon ?p"
    by (simp add: outs eps)
  have k: "(1::nat) < length (behaviors ?p)" by (simp add: len)
  from PrioritySteering_counts_angular [of zero_steering ?p 1 zero_steering, THEN conjunct2]
    en eps k below z w
  have "fst (PrioritySteering_calculateSteering ?p zero_steering) =
          child_outputs (behaviors ?p) zero_steering ! 1 \<and>
        getSelectedBehaviorIndex (snd (PrioritySteering_calculateSteering ?p zero_steering)) = int 1"
    by simp
  with en eps show ?thesis by (simp add: outs)
qed

section \<open>Properties of LinePath\<close>

declare createPath_loop.simps [simp del]

text \<open>
  Claim C8. Constructing a \<open>LinePath\<close> from \<open>null\<close> or from fewer than two waypoints
  throws an error; constructing it from two or more waypoints does not throw.
\<close>

theorem LinePath_new_fails_fast:
  "(\<exists>e. LinePath_new None is_open = Inl e) \<and>
   (length ws < 2 \<longrightarrow> (\<exists>e. LinePath_new (Some ws) is_open = Inl e)) \<and>
   (2 \<le> length ws \<longrightarrow> (\<exists>p. LinePath_new (Some ws) is_open = Inr p))"
proof (intro conjI impI)
  show "\<exists>e. LinePath_new None is_open = Inl e"
    by (simp add: LinePath_new_def createPath_def)
next
  assume "length ws < 2"
  then show "\<exists>e. LinePath_new (Some ws) is_open = Inl e"
    by (simp add: LinePath_new_def createPath_def)
next
  assume two: "2 \<le> length ws"
  then obtain w rest where ws: "ws = w # rest"
    by (cases ws) auto
  obtain len segs where l: "createPath_loop is_open ws 1 (ws ! 0) (0, []) = (len, segs)"
    by (cases "createPath_loop is_open ws 1 (ws ! 0) (0, [])") blast
  from two have "createPath is_open (Some ws) = Inr (segs, len)"
    by (simp add: createPath_def l del: One_nat_def)
  then show "\<exists>p. LinePath_new (Some ws) is_open = Inr p"
    by (simp add: LinePath_new_def ws)
qed

theorem LinePath_new_fails_fast_witness:
  "length [\<lparr>data0 = 0, data1 = 0\<rparr>] < 2 \<and>
   (\<exists>e. LinePath_new (Some [\<lparr>data0 = 0, data1 = 0\<rparr>]) False = Inl e) \<and>
   2 \<le> length [\<lparr>data0 = 0, data1 = 0\<rparr>, \<lparr>data0 = 3, data1 = 4\<rparr>] \<and>
   (\<exists>p. LinePath_new (Some [\<lparr>data0 = 0, data1 = 0\<rparr>, \<lparr>data0 = 3, data1 = 4\<rparr>]) False = Inr p)"
  using LinePath_new_fails_fast [of False "[\<lparr>data0 = 0, data1 = 0\<rparr>]"]
    LinePath_new_fails_fast [of False "[\<lparr>data0 = 0, data1 = 0\<rparr>, \<lparr>data0 = 3, data1 = 4\<rparr>]"]
  by simp

section \<open>Properties of RadiusProximity\<close>

lemma setTagged_position [simp]: "position (setTagged h a b r) = position (h r)"
  by (simp add: setTagged_def)

lemma setTagged_boundingRadius [simp]: "boundingRadius (setTagged h a b r) = boundingRadius (h r)"
  by (simp add: setTagged_def)

lemma setTagged_linearVelocity [simp]: "linearVelocity (setTagged h a b r) = linearVelocity (h r)"
  by (simp add: setTagged_def)

lemma same_bodies_refl [simp]: "same_bodies h h"
  by (simp add: same_bodies_def)

lemma same_bodies_setTagged: "same_bodies h0 h \<Longrightarrow> same_bodies h0 (setTagged h a b)"
  by (simp add: same_bodies_def)

lemma scan_agents_logging:
  assumes "same_bodies h0 h"
    and "scan_agents (logging callback) this ownerPosition as (h, (c, reported), n) = (h', (c', reported'), n')"
  shows "\<exists>new. reported' = reported @ new \<and>
           map fst new = filter (\<lambda>a. a \<noteq> proximity_owner this \<and>
               Vector2_dst2 ownerPosition (position (h0 a))
                 < (radius this + boundingRadius (h0 a)) * (radius this + boundingRadius (h0 a))) as \<and>
           n' = n + length (filter snd new)"
  using assms
proof (induction as arbitrary: h c reported n)
  case Nil
  then show ?case by simp
next
  case (Cons a as)
  let ?P = "\<lambda>a. a \<noteq> proximity_owner this \<and>
               Vector2_dst2 ownerPosition (position (h0 a))
                 < (radius this + boundingRadius (h0 a)) * (radius this + boundingRadius (h0 a))"
  from Cons.prems(1) have pos: "position (h a) = position (h0 a)"
    and rad: "boundingRadius (h a) = boundingRadius (h0 a)"
    by (simp_all add: same_bodies_def)
  show ?case
  proof (cases "?P a")
    case False
    then have step: "scan_agents (logging callback) this ownerPosition (a # as) (h, (c, reported), n) =
      scan_agents (logging callback) this ownerPosition as (setTagged h a False, (c, reported), n)"
      by (auto simp: pos rad Let_def)
    from Cons.prems(2) step
    have "scan_agents (logging callback) this ownerPosition as (setTagged h a False, (c, reported), n)
      = (h', (c', reported'), n')" by simp
    from Cons.IH [OF same_bodies_setTagged [OF Cons.prems(1)] this]
    obtain new where "reported' = reported @ new" "map fst new = filter ?P as" "n' = n + length (filter snd new)"
      by blast
    with False show ?thesis by auto
  next
    case True
    obtain b c1 where cb: "callback c h a = (b, c1)"
      by (cases "callback c h a") blast
    have step: "scan_agents (logging callback) this ownerPosition (a # as) (h, (c, reported), n) =
      scan_agents (logging callback) this ownerPosition as
        (setTagged h a b, (c1, reported @ [(a, b)]), if b then n + 1 else n)"
      using True by (cases b) (simp_all add: pos rad Let_def logging_def cb)
    from Cons.prems(2) step
    have "scan_agents (logging callback) this ownerPosition as
        (setTagged h a b, (c1, reported @ [(a, b)]), if b then n + 1 else n)
      = (h', (c', reported'), n')" by simp
    from Cons.IH [OF same_bodies_setTagged [OF Cons.prems(1)] this]
    obtain new where new: "reported' = (reported @ [(a, b)]) @ new" "map fst new = filter ?P as"
      "n' = (if b then n + 1 else n) + length (filter snd new)"
      by blast
    show ?thesis
    proof (intro exI conjI)
      show "reported' = reported @ ((a, b) # new)" using new(1) by simp
      show "map fst ((a, b) # new) = filter ?P (a # as)" using new(2) True by simp
      show "n' = n + length (filter snd ((a, b) # new))" using new(3) by simp
    qed
  qed
qed

text \<open>
  Called with a tick id other than the one stored in \<open>lastTime\<close>, \<open>findNeighbors\<close>
  gives the callback, in list order, exactly the agents that are not the owner and whose
  squared distance from the owner's position is less than the square of the radius plus
  the agent's bounding radius; the owner is never among them, and the returned count is
  the number of agents the callback accepted. In the scenario of the agents at \<open>(0,0)\<close>
  (the owner), \<open>(3,0)\<close> and \<open>(10,0)\<close> with radius 5 and the tick id 1, only the agent at
  \<open>(3,0)\<close> is reported and the count is 1.
\<close>

proposition RadiusProximity_reports_in_range:
  "lastTime this \<noteq> currentTime \<longrightarrow>
   (case findNeighbors (logging callback) currentTime this h (c, []) of
      (neighborCount, this', h', (c', reported)) \<Rightarrow>
        map fst reported = filter (\<lambda>a. a \<noteq> proximity_owner this \<and> within_radius this h a) (agents this) \<and>
        proximity_owner this \<notin> set (map fst reported) \<and>
        neighborCount = length (filter snd reported))"
proof
  assume fresh: "lastTime this \<noteq> currentTime"
  let ?p = "this\<lparr>lastTime := currentTime\<rparr>"
  let ?op = "position (h (proximity_owner this))"
  obtain h' cl n where sc0:
    "scan_agents (logging callback) ?p ?op (agents this) (h, (c, []), 0) = (h', cl, n)"
    by (rule prod_cases3)
  obtain c' reported where cl: "cl = (c', reported)"
    by (cases cl)
  note sc = sc0 [unfolded cl]
  from scan_agents_logging [OF same_bodies_refl sc]
  have m: "map fst reported = filter (\<lambda>a. a \<noteq> proximity_owner this \<and> within_radius this h a) (agents this)"
    and n: "n = length (filter snd reported)"
    by (auto simp: within_radius_def)
  from m have own: "proximity_owner this \<notin> set (map fst reported)" by simp
  have fn: "findNeighbors (logging callback) currentTime this h (c, []) = (n, ?p, h', (c', reported))"
    using fresh sc by (simp add: findNeighbors_def)
  from m n own have all: "map fst reported =
        filter (\<lambda>a. a \<noteq> proximity_owner this \<and> within_radius this h a) (agents this) \<and>
        proximity_owner this \<notin> set (map fst reported) \<and>
        n = length (filter snd reported)"
    by blast
  then show "case findNeighbors (logging callback) currentTime this h (c, []) of
      (neighborCount, this', h', (c', reported)) \<Rightarrow>
        map fst reported = filter (\<lambda>a. a \<noteq> proximity_owner this \<and> within_radius this h a) (agents this) \<and>
        proximity_owner this \<notin> set (map fst reported) \<and>
        neighborCount = length (filter snd reported)"
    unfolding fn prod.case .
qed

lemma example_scan:
  "findNeighbors (logging accept_all) 1 example_proximity example_heap ((), []) =
     (1, example_proximity\<lparr>lastTime := 1\<rparr>,
      setTagged (setTagged (setTagged example_heap 0 False) 1 True) 2 False,
      ((), [(1, True)]))"
  by (simp add: findNeighbors_def example_proximity_def example_heap_def agent_at_def
      example_owner_def logging_def accept_all_def Vector2_dst2_def vec2_squaredDistance_def
      setTagged_def Let_def)

lemma RadiusProximity_reports_in_range_example:
  "lastTime example_proximity \<noteq> 1 \<and>
   filter (\<lambda>a. a \<noteq> proximity_owner example_proximity \<and> within_radius example_proximity example_heap a)
     (agents example_proximity) = [1] \<and>
   findNeighbors (logging accept_all) 1 example_proximity example_heap ((), []) =
     (1, example_proximity\<lparr>lastTime := 1\<rparr>,
      setTagged (setTagged (setTagged example_heap 0 False) 1 True) 2 False,
      ((), [(1, True)]))"
proof -
  have fresh: "lastTime example_proximity \<noteq> 1"
    by (simp add: example_proximity_def)
  from RadiusProximity_reports_in_range [where this = example_proximity and currentTime = 1
      and callback = accept_all and h = example_heap and c = "()"] fresh
  have "[1] = filter (\<lambda>a. a \<noteq> proximity_owner example_proximity \<and>
            within_radius example_proximity example_heap a) (agents example_proximity)"
    by (simp add: example_scan)
  with fresh show ?thesis by (simp add: example_scan)
qed

text \<open>
  Claim C7. The claim is about a call with a fresh tick id. A proximity that has just been
  constructed has seen no tick yet, so every tick id is fresh for it, and the class
  comment has the neighbors calculated the very first time. The constructor however
  stores 0 as the last tick seen, and a first call with the tick id 0 takes the branch of
  a frame already seen: it goes through the tagged agents and scans nothing. In the
  scenario of the claim, with no agent tagged, the agent at \<open>(3,0)\<close> is within the
  radius and is not the owner, yet nothing is reported and the returned count is 0; the
  same call with the tick id 1 reports that agent and returns 1.
\<close>

theorem RadiusProximity_first_call_tick_zero:
  "lastTime (RadiusProximity_new 0 [0, 1, 2] 5) = 0 \<and>
   filter (\<lambda>a. a \<noteq> proximity_owner (RadiusProximity_new 0 [0, 1, 2] 5) \<and>
             within_radius (RadiusProximity_new 0 [0, 1, 2] 5) example_heap a)
     (agents (RadiusProximity_new 0 [0, 1, 2] 5)) = [1] \<and>
   \<not> tagged (example_heap 0) \<and> \<not> tagged (example_heap 1) \<and> \<not> tagged (example_heap 2) \<and>
   findNeighbors (logging accept_all) 0 (RadiusProximity_new 0 [0, 1, 2] 5) example_heap ((), []) =
     (0, RadiusProximity_new 0 [0, 1, 2] 5, example_heap, ((), [])) \<and>
   findNeighbors (logging accept_all) 1 (RadiusProximity_new 0 [0, 1, 2] 5) example_heap ((), []) =
     (1, (RadiusProximity_new 0 [0, 1, 2] 5)\<lparr>lastTime := 1\<rparr>,
      setTagged (setTagged (setTagged example_heap 0 False) 1 True) 2 False,
      ((), [(1, True)]))"
proof -
  have new: "RadiusProximity_new 0 [0, 1, 2] 5 = example_proximity"
    by (simp add: RadiusProximity_new_def example_proximity_def)
  have l: "lastTime example_proximity = 0"
    by (simp add: example_proximity_def)
  have f: "filter (\<lambda>a. a \<noteq> proximity_owner example_proximity \<and>
             within_radius example_proximity example_heap a) (agents example_proximity) = [1]"
    by (simp add: within_radius_def example_proximity_def example_heap_def agent_at_def
        example_owner_def Vector2_dst2_def vec2_squaredDistance_def)
  have t: "\<not> tagged (example_heap 0)" "\<not> tagged (example_heap 1)" "\<not> tagged (example_heap 2)"
    by (simp_all add: example_heap_def agent_at_def example_owner_def)
  have r0: "findNeighbors (logging accept_all) 0 example_proximity example_heap ((), []) =
     (0, example_proximity, example_heap, ((), []))"
    by (simp add: findNeighbors_def example_proximity_def example_heap_def agent_at_def
        example_owner_def)
  from l f t r0 example_scan show ?thesis
    unfolding new by simp
qed

section \<open>Properties of Arrive\<close>

lemma Vector2_limit_eq_le:
  assumes "0 \<le> L"
  shows "Vector2_limit v L =
    (if Vector2_len v \<le> L then v else Vector2_scale v (L / Vector2_len v))"
  using assms by (auto simp: Vector2_limit_eq)

lemma arrive_unfold:
  "arrive a steering targetPosition =
     (let T = Vector2_sub targetPosition (position (owner a));
          D = Vector2_len T;
          S = (if D > Arrive.decelerationRadius a
               then getMaxLinearSpeed (getActualLimiter a)
               else getMaxLinearSpeed (getActualLimiter a) * (D / Arrive.decelerationRadius a))
      in if D \<le> arrivalTolerance a
         then \<lparr>linear_acc = \<lparr>data0 = 0, data1 = 0\<rparr>, angular = 0\<rparr>
         else steering\<lparr>linear_acc :=
                Vector2_limit
                  (Vector2_scale (Vector2_sub (Vector2_scale T (S / D)) (linearVelocity (owner a)))
                     (1 / Arrive.timeToTarget a))
                  (getMaxLinearAcceleration (getActualLimiter a)),
              angular := 0\<rparr>)"
  by (simp add: arrive_def Let_def Vector2_copy_def SteeringAcceleration_setZero_def
      Vector2_setZero_def not_less)

text \<open>
  Claim C3. Let \<open>d\<close> be the distance from the owner to the target position. If \<open>d\<close> is
  at most \<open>arrivalTolerance\<close>, \<open>arrive\<close> returns exactly zero steering. Otherwise the
  desired speed is \<open>maxLinearSpeed\<close> when \<open>d\<close> exceeds \<open>decelerationRadius\<close> and
  \<open>maxLinearSpeed\<close> scaled by \<open>d / decelerationRadius\<close> inside it; the desired velocity is
  that speed along the direction to the target; the linear output is the desired
  velocity minus the current one, divided by \<open>timeToTarget\<close>, with its length capped at
  \<open>maxLinearAcceleration\<close>; and the angular output is zero. The tolerance and the cap are
  not negative and \<open>timeToTarget\<close> is not zero.
\<close>

theorem Arrive_steering:
  fixes a :: Arrive and steering :: SteeringAcceleration and targetPosition :: Vector2
  defines "toTarget \<equiv> Vector2_sub targetPosition (position (owner a))"
  defines "d \<equiv> Vector2_len toTarget"
  defines "speed \<equiv> (if d > Arrive.decelerationRadius a
                      then getMaxLinearSpeed (getActualLimiter a)
                      else getMaxLinearSpeed (getActualLimiter a) * (d / Arrive.decelerationRadius a))"
  defines "desiredVelocity \<equiv>
             \<lparr>data0 = speed * (data0 toTarget / d), data1 = speed * (data1 toTarget / d)\<rparr>"
  defines "wanted \<equiv>
             \<lparr>data0 = (data0 desiredVelocity - data0 (linearVelocity (owner a))) / Arrive.timeToTarget a,
              data1 = (data1 desiredVelocity - data1 (linearVelocity (owner a))) / Arrive.timeToTarget a\<rparr>"
  assumes tol: "0 \<le> arrivalTolerance a"
    and ttt: "Arrive.timeToTarget a \<noteq> 0"
    and cap: "0 \<le> getMaxLinearAcceleration (getActualLimiter a)"
  shows "(d \<le> arrivalTolerance a \<longrightarrow>
            arrive a steering targetPosition = \<lparr>linear_acc = \<lparr>data0 = 0, data1 = 0\<rparr>, angular = 0\<rparr>) \<and>
         (d > arrivalTolerance a \<longrightarrow>
            Vector2_len desiredVelocity = \<bar>speed\<bar> \<and>
            linear_acc (arrive a steering targetPosition) =
              (if Vector2_len wanted \<le> getMaxLinearAcceleration (getActualLimiter a) then wanted
               else Vector2_scale wanted
                      (getMaxLinearAcceleration (getActualLimiter a) / Vector2_len wanted)) \<and>
            Vector2_len (linear_acc (arrive a steering targetPosition))
              \<le> getMaxLinearAcceleration (getActualLimiter a) \<and>
            angular (arrive a steering targetPosition) = 0)"
proof (intro conjI impI)
  assume "d \<le> arrivalTolerance a"
  then show "arrive a steering targetPosition = \<lparr>linear_acc = \<lparr>data0 = 0, data1 = 0\<rparr>, angular = 0\<rparr>"
    unfolding arrive_unfold Let_def d_def toTarget_def by (simp only: if_True)
next
  assume far: "d > arrivalTolerance a"
  with tol have dpos: "0 < d" by simp
  have len_dv: "Vector2_len desiredVelocity = \<bar>speed\<bar>"
  proof -
    have "desiredVelocity = Vector2_scale toTarget (speed / d)"
      by (simp add: desiredVelocity_def Vector2_scale_def vec2_scale_def)
    then have "Vector2_len desiredVelocity = \<bar>speed / d\<bar> * d"
      by (simp add: Vector2_len_scale d_def)
    with dpos show ?thesis by simp
  qed
  have raw: "Vector2_scale
      (Vector2_sub (Vector2_scale toTarget (speed / d)) (linearVelocity (owner a)))
      (1 / Arrive.timeToTarget a) = wanted"
    by (simp add: wanted_def desiredVelocity_def Vector2_scale_def vec2_scale_def
        Vector2_sub_def vec2_sub_def divide_simps)
  have "arrive a steering targetPosition =
    steering\<lparr>linear_acc :=
                Vector2_limit
                  (Vector2_scale
                     (Vector2_sub (Vector2_scale toTarget (speed / d)) (linearVelocity (owner a)))
                     (1 / Arrive.timeToTarget a))
                  (getMaxLinearAcceleration (getActualLimiter a)),
             angular := 0\<rparr>"
    using far unfolding arrive_unfold Let_def speed_def d_def toTarget_def
    by (simp only: not_le [symmetric] if_False)
  then have out: "arrive a steering targetPosition =
    steering\<lparr>linear_acc := Vector2_limit wanted (getMaxLinearAcceleration (getActualLimiter a)),
             angular := 0\<rparr>"
    by (simp only: raw)
  show "Vector2_len desiredVelocity = \<bar>speed\<bar>" by (rule len_dv)
  show "linear_acc (arrive a steering targetPosition) =
              (if Vector2_len wanted \<le> getMaxLinearAcceleration (getActualLimiter a) then wanted
               else Vector2_scale wanted
                      (getMaxLinearAcceleration (getActualLimiter a) / Vector2_len wanted))"
    by (simp add: out Vector2_limit_eq_le [OF cap])
  show "Vector2_len (linear_acc (arrive a steering targetPosition))
              \<le> getMaxLinearAcceleration (getActualLimiter a)"
    by (simp add: out Vector2_len_limit [OF cap])
  show "angular (arrive a steering targetPosition) = 0"
    by (simp add: out)
qed


lemma getActualLimiter_example_arrive:
  "getMaxLinearAcceleration (getActualLimiter example_arrive) = 5"
  "getMaxLinearSpeed (getActualLimiter example_arrive) = 10"
  by (simp_all add: getActualLimiter_def example_arrive_def example_owner_def Limiter.truncate_def)

theorem Arrive_steering_witness:
  "0 \<le> arrivalTolerance example_arrive \<and> Arrive.timeToTarget example_arrive \<noteq> 0 \<and>
   0 \<le> getMaxLinearAcceleration (getActualLimiter example_arrive) \<and>
   Vector2_len (Vector2_sub \<lparr>data0 = 3, data1 = 4\<rparr> (position (owner example_arrive))) = 5 \<and>
   arrive example_arrive zero_steering \<lparr>data0 = 3, data1 = 4\<rparr> =
     \<lparr>linear_acc = \<lparr>data0 = 3, data1 = 4\<rparr>, angular = 0\<rparr> \<and>
   Vector2_len (Vector2_sub \<lparr>data0 = 0, data1 = 1\<rparr> (position (owner example_arrive))) = 1 \<and>
   arrive example_arrive zero_steering \<lparr>data0 = 0, data1 = 1\<rparr> =
     \<lparr>linear_acc = \<lparr>data0 = 0, data1 = 0\<rparr>, angular = 0\<rparr>"
proof -
  have tol: "0 \<le> arrivalTolerance example_arrive"
    and ttt: "Arrive.timeToTarget example_arrive \<noteq> 0"
    and cap: "0 \<le> getMaxLinearAcceleration (getActualLimiter example_arrive)"
    by (simp_all add: getActualLimiter_example_arrive) (simp_all add: example_arrive_def)
  have d: "Vector2_len (Vector2_sub \<lparr>data0 = 3, data1 = 4\<rparr> (position (owner example_arrive))) = 5"
    by (simp add: example_arrive_def example_owner_def Vector2_defs)
  have far: "arrivalTolerance example_arrive
      < Vector2_len (Vector2_sub \<lparr>data0 = 3, data1 = 4\<rparr> (position (owner example_arrive)))"
    by (simp add: d) (simp add: example_arrive_def)
  note t = Arrive_steering [where a = example_arrive and steering = zero_steering
      and targetPosition = "\<lparr>data0 = 3, data1 = 4\<rparr>", OF tol ttt cap, THEN conjunct2, rule_format, OF far]
  have vals: "Arrive.decelerationRadius example_arrive = 10"
    "Arrive.timeToTarget example_arrive = 1 / 10"
    "linearVelocity (owner example_arrive) = \<lparr>data0 = 0, data1 = 0\<rparr>"
    "position (owner example_arrive) = \<lparr>data0 = 0, data1 = 0\<rparr>"
    by (simp_all add: example_arrive_def example_owner_def)
  have sub: "Vector2_sub \<lparr>data0 = 3, data1 = 4\<rparr> \<lparr>data0 = 0, data1 = 0\<rparr> = \<lparr>data0 = 3, data1 = 4\<rparr>"
    by (simp add: Vector2_defs)
  have len: "Vector2_len \<lparr>data0 = 3, data1 = 4\<rparr> = 5" "Vector2_len \<lparr>data0 = 30, data1 = 40\<rparr> = 50"
    by (simp_all add: Vector2_defs)
  from t have lin: "linear_acc (arrive example_arrive zero_steering \<lparr>data0 = 3, data1 = 4\<rparr>)
      = \<lparr>data0 = 3, data1 = 4\<rparr>"
    and ang: "angular (arrive example_arrive zero_steering \<lparr>data0 = 3, data1 = 4\<rparr>) = 0"
    by (simp_all add: vals sub len getActualLimiter_example_arrive Vector2_scale_def vec2_scale_def)
  have "arrive example_arrive zero_steering \<lparr>data0 = 3, data1 = 4\<rparr> =
     \<lparr>linear_acc = \<lparr>data0 = 3, data1 = 4\<rparr>, angular = 0\<rparr>"
    using lin ang by (cases "arrive example_arrive zero_steering \<lparr>data0 = 3, data1 = 4\<rparr>") simp
  moreover
  have d1: "Vector2_len (Vector2_sub \<lparr>data0 = 0, data1 = 1\<rparr> (position (owner example_arrive))) = 1"
    by (simp add: example_arrive_def example_owner_def Vector2_defs)
  have near: "Vector2_len (Vector2_sub \<lparr>data0 = 0, data1 = 1\<rparr> (position (owner example_arrive)))
      \<le> arrivalTolerance example_arrive"
    by (simp add: d1) (simp add: example_arrive_def)
  have "arrive example_arrive zero_steering \<lparr>data0 = 0, data1 = 1\<rparr> =
     \<lparr>linear_acc = \<lparr>data0 = 0, data1 = 0\<rparr>, angular = 0\<rparr>"
    by (rule Arrive_steering [where a = example_arrive and steering = zero_steering
      and targetPosition = "\<lparr>data0 = 0, data1 = 1\<rparr>", OF tol ttt cap, THEN conjunct1, rule_format,
      OF near])
  ultimately show ?thesis using tol ttt cap d d1 by simp
qed

section \<open>Properties of ReachOrientation\<close>

lemma PI2_pos: "0 < PI2"
  by (simp add: PI2_def)

lemma js_rem_nonneg:
  assumes "0 \<le> x"
  shows "js_rem x PI2 = x - PI2 * of_int \<lfloor>x / PI2\<rfloor>"
    and "0 \<le> js_rem x PI2" and "js_rem x PI2 < PI2"
proof -
  have q: "0 \<le> x / PI2" using assms PI2_pos by simp
  then show eq: "js_rem x PI2 = x - PI2 * of_int \<lfloor>x / PI2\<rfloor>"
    by (simp add: js_rem_def)
  have lo: "of_int \<lfloor>x / PI2\<rfloor> * PI2 \<le> x"
    using floor_divide_lower [OF PI2_pos, of x] .
  have hi: "x < (of_int \<lfloor>x / PI2\<rfloor> + 1) * PI2"
    using floor_divide_upper [OF PI2_pos, of x] .
  from lo show "0 \<le> js_rem x PI2" by (simp add: eq mult.commute)
  from hi show "js_rem x PI2 < PI2" by (simp add: eq algebra_simps)
qed

lemma wrap_nonneg:
  assumes "0 \<le> x"
  defines "w \<equiv> (if js_rem x PI2 > pi then js_rem x PI2 - PI2 else js_rem x PI2)"
  shows "- pi < w" and "w \<le> pi" and "\<exists>k::int. w = x + 2 * pi * of_int k"
proof -
  note r = js_rem_nonneg [OF assms(1)]
  show "- pi < w" using r(2) r(3) by (auto simp: w_def PI2_def)
  show "w \<le> pi" using r(2) r(3) by (auto simp: w_def PI2_def)
  show "\<exists>k::int. w = x + 2 * pi * of_int k"
  proof (cases "js_rem x PI2 > pi")
    case True
    then have "w = x - PI2 * of_int \<lfloor>x / PI2\<rfloor> - PI2"
      by (simp add: w_def r(1))
    then have "w = x + 2 * pi * of_int (- \<lfloor>x / PI2\<rfloor> - 1)"
      by (simp add: PI2_def algebra_simps)
    then show ?thesis by blast
  next
    case False
    then have "w = x - PI2 * of_int \<lfloor>x / PI2\<rfloor>"
      by (simp add: w_def r(1))
    then have "w = x + 2 * pi * of_int (- \<lfloor>x / PI2\<rfloor>)"
      by (simp add: PI2_def algebra_simps)
    then show ?thesis by blast
  qed
qed

lemma wrapAngleAroundZero_range:
  "- pi \<le> wrapAngleAroundZero x" "wrapAngleAroundZero x \<le> pi"
  "\<exists>k::int. wrapAngleAroundZero x = x + 2 * pi * of_int k"
proof -
  show "- pi \<le> wrapAngleAroundZero x"
  proof (cases "0 \<le> x")
    case True
    from wrap_nonneg(1) [OF True] show ?thesis
      by (simp add: wrapAngleAroundZero_def Let_def True)
  next
    case False
    then have n: "0 \<le> - x" by simp
    from wrap_nonneg(2) [OF n] False show ?thesis
      by (simp add: wrapAngleAroundZero_def Let_def)
  qed
  show "wrapAngleAroundZero x \<le> pi"
  proof (cases "0 \<le> x")
    case True
    from wrap_nonneg(2) [OF True] show ?thesis
      by (simp add: wrapAngleAroundZero_def Let_def True)
  next
    case False
    then have n: "0 \<le> - x" by simp
    from wrap_nonneg(1) [OF n] False show ?thesis
      by (simp add: wrapAngleAroundZero_def Let_def)
  qed
  show "\<exists>k::int. wrapAngleAroundZero x = x + 2 * pi * of_int k"
  proof (cases "0 \<le> x")
    case True
    from wrap_nonneg(3) [OF True] show ?thesis
      by (simp add: wrapAngleAroundZero_def Let_def True)
  next
    case False
    then have n: "0 \<le> - x" by simp
    from wrap_nonneg(3) [OF n] obtain k :: int where
      k: "(if js_rem (- x) PI2 > pi then js_rem (- x) PI2 - PI2 else js_rem (- x) PI2)
            = - x + 2 * pi * of_int k"
      by blast
    have "wrapAngleAroundZero x = x + 2 * pi * of_int (- k)"
      using False k by (simp add: wrapAngleAroundZero_def Let_def)
    then show ?thesis by blast
  qed
qed

lemma wrapAngleAroundZero_example: "wrapAngleAroundZero (pi + 1 / 10 - 0) = - pi + 1 / 10"
proof -
  have p2: "2 \<le> pi" by (rule pi_ge_two)
  have "0 \<le> (pi + 1 / 10) / PI2" and "(pi + 1 / 10) / PI2 < 1"
    using p2 by (simp_all add: PI2_def)
  then have fl: "\<lfloor>(pi + 1 / 10) / PI2\<rfloor> = 0"
    by (simp add: floor_eq_iff)
  have rem: "js_rem (pi + 1 / 10) PI2 = pi + 1 / 10"
    using p2 by (simp add: js_rem_nonneg(1) fl)
  have "wrapAngleAroundZero (pi + 1 / 10 - 0) = pi + 1 / 10 - PI2"
    using p2 by (simp add: wrapAngleAroundZero_def Let_def rem)
  then show ?thesis
    by (simp add: PI2_def)
qed


lemma reachOrientation_unfold:
  "reachOrientation r steering targetOrientation =
     (let rotation = wrapAngleAroundZero (targetOrientation - orientation (owner r));
          tr = (if \<bar>rotation\<bar> \<le> ReachOrientation.decelerationRadius r
                then getMaxAngularSpeed (getActualLimiter r) *
                       (\<bar>rotation\<bar> / ReachOrientation.decelerationRadius r)
                else getMaxAngularSpeed (getActualLimiter r)) * (rotation / \<bar>rotation\<bar>);
          ang = (tr - angularVelocity (owner r)) / ReachOrientation.timeToTarget r
      in if \<bar>rotation\<bar> \<le> alignTolerance r
         then \<lparr>linear_acc = \<lparr>data0 = 0, data1 = 0\<rparr>, angular = 0\<rparr>
         else steering\<lparr>linear_acc := \<lparr>data0 = 0, data1 = 0\<rparr>,
                angular := (if \<bar>ang\<bar> > getMaxAngularAcceleration (getActualLimiter r)
                            then ang * (getMaxAngularAcceleration (getActualLimiter r) / \<bar>ang\<bar>)
                            else ang)\<rparr>)"
proof -
  have a: "(if x < 0 then - x else x) = \<bar>x\<bar>" for x :: real
    by simp
  show ?thesis
    unfolding reachOrientation_def Let_def a
    by (simp add: SteeringAcceleration_setZero_def Vector2_setZero_def)
qed

lemma div_abs_sgn: "x \<noteq> 0 \<Longrightarrow> x / \<bar>x\<bar> = sgn x" for x :: real
  by (simp add: sgn_real_def)

lemma clamp_by_ratio:
  fixes w m :: real
  assumes "0 \<le> m"
  shows "(if \<bar>w\<bar> > m then w * (m / \<bar>w\<bar>) else w) = (if \<bar>w\<bar> \<le> m then w else m * sgn w)"
    and "\<bar>if \<bar>w\<bar> > m then w * (m / \<bar>w\<bar>) else w\<bar> \<le> m"
proof -
  show "(if \<bar>w\<bar> > m then w * (m / \<bar>w\<bar>) else w) = (if \<bar>w\<bar> \<le> m then w else m * sgn w)"
    using assms by (auto simp: sgn_real_def)
  show "\<bar>if \<bar>w\<bar> > m then w * (m / \<bar>w\<bar>) else w\<bar> \<le> m"
    using assms by (auto simp: abs_mult)
qed

text \<open>
  Claim C4. The rotation is the difference of the target angle and the owner's angle,
  wrapped: it lies between \<open>-\<pi>\<close> and \<open>\<pi>\<close> and differs from the difference by a whole
  number of turns; for the owner's angle 0 and the target angle \<open>\<pi> + 0.1\<close> it is
  \<open>-\<pi> + 0.1\<close>. If the absolute rotation is at most \<open>alignTolerance\<close> the steering is
  exactly zero. Otherwise the desired rotation speed is \<open>maxAngularSpeed\<close>, scaled by the
  absolute rotation over \<open>decelerationRadius\<close> inside that radius, in the direction of the
  rotation; the angular output is the desired speed minus the current angular velocity,
  divided by \<open>timeToTarget\<close>, with its absolute value capped at
  \<open>maxAngularAcceleration\<close>; and the linear output is zero. The tolerance and the cap
  are not negative and \<open>timeToTarget\<close> is not zero.
\<close>

theorem ReachOrientation_steering:
  fixes r :: ReachOrientation and steering :: SteeringAcceleration and targetOrientation :: real
  defines "rotation \<equiv> wrapAngleAroundZero (targetOrientation - orientation (owner r))"
  defines "desired \<equiv>
             (if \<bar>rotation\<bar> > ReachOrientation.decelerationRadius r
              then getMaxAngularSpeed (getActualLimiter r)
              else getMaxAngularSpeed (getActualLimiter r) *
                     (\<bar>rotation\<bar> / ReachOrientation.decelerationRadius r)) * sgn rotation"
  defines "wanted \<equiv> (desired - angularVelocity (owner r)) / ReachOrientation.timeToTarget r"
  assumes tol: "0 \<le> alignTolerance r"
    and ttt: "ReachOrientation.timeToTarget r \<noteq> 0"
    and cap: "0 \<le> getMaxAngularAcceleration (getActualLimiter r)"
  shows "- pi \<le> rotation \<and> rotation \<le> pi \<and>
         (\<exists>k::int. rotation = targetOrientation - orientation (owner r) + 2 * pi * of_int k) \<and>
         wrapAngleAroundZero (pi + 1 / 10 - 0) = - pi + 1 / 10 \<and>
         (\<bar>rotation\<bar> \<le> alignTolerance r \<longrightarrow>
            reachOrientation r steering targetOrientation =
              \<lparr>linear_acc = \<lparr>data0 = 0, data1 = 0\<rparr>, angular = 0\<rparr>) \<and>
         (\<bar>rotation\<bar> > alignTolerance r \<longrightarrow>
            linear_acc (reachOrientation r steering targetOrientation) = \<lparr>data0 = 0, data1 = 0\<rparr> \<and>
            angular (reachOrientation r steering targetOrientation) =
              (if \<bar>wanted\<bar> \<le> getMaxAngularAcceleration (getActualLimiter r) then wanted
               else getMaxAngularAcceleration (getActualLimiter r) * sgn wanted) \<and>
            \<bar>angular (reachOrientation r steering targetOrientation)\<bar>
              \<le> getMaxAngularAcceleration (getActualLimiter r))"
proof (intro conjI impI)
  show "- pi \<le> rotation" "rotation \<le> pi"
    unfolding rotation_def by (rule wrapAngleAroundZero_range)+
  show "\<exists>k::int. rotation = targetOrientation - orientation (owner r) + 2 * pi * of_int k"
    unfolding rotation_def by (rule wrapAngleAroundZero_range)
  show "wrapAngleAroundZero (pi + 1 / 10 - 0) = - pi + 1 / 10"
    by (rule wrapAngleAroundZero_example)
next
  assume "\<bar>rotation\<bar> \<le> alignTolerance r"
  then show "reachOrientation r steering targetOrientation =
              \<lparr>linear_acc = \<lparr>data0 = 0, data1 = 0\<rparr>, angular = 0\<rparr>"
    unfolding reachOrientation_unfold Let_def rotation_def by (simp only: if_True)
next
  assume far: "\<bar>rotation\<bar> > alignTolerance r"
  with tol have nz: "rotation \<noteq> 0" by auto
  let ?m = "getMaxAngularAcceleration (getActualLimiter r)"
  have tr: "(if \<bar>rotation\<bar> \<le> ReachOrientation.decelerationRadius r
                then getMaxAngularSpeed (getActualLimiter r) *
                       (\<bar>rotation\<bar> / ReachOrientation.decelerationRadius r)
                else getMaxAngularSpeed (getActualLimiter r)) * (rotation / \<bar>rotation\<bar>) = desired"
    unfolding desired_def div_abs_sgn [OF nz] by (simp add: not_less)
  have "reachOrientation r steering targetOrientation =
      steering\<lparr>linear_acc := \<lparr>data0 = 0, data1 = 0\<rparr>,
                angular := (if \<bar>((if \<bar>rotation\<bar> \<le> ReachOrientation.decelerationRadius r
                then getMaxAngularSpeed (getActualLimiter r) *
                       (\<bar>rotation\<bar> / ReachOrientation.decelerationRadius r)
                else getMaxAngularSpeed (getActualLimiter r)) * (rotation / \<bar>rotation\<bar>)
                 - angularVelocity (owner r)) / ReachOrientation.timeToTarget r\<bar> > ?m
                            then (((if \<bar>rotation\<bar> \<le> ReachOrientation.decelerationRadius r
                then getMaxAngularSpeed (getActualLimiter r) *
                       (\<bar>rotation\<bar> / ReachOrientation.decelerationRadius r)
                else getMaxAngularSpeed (getActualLimiter r)) * (rotation / \<bar>rotation\<bar>)
                 - angularVelocity (owner r)) / ReachOrientation.timeToTarget r) *
                   (?m / \<bar>((if \<bar>rotation\<bar> \<le> ReachOrientation.decelerationRadius r
                then getMaxAngularSpeed (getActualLimiter r) *
                       (\<bar>rotation\<bar> / ReachOrientation.decelerationRadius r)
                else getMaxAngularSpeed (getActualLimiter r)) * (rotation / \<bar>rotation\<bar>)
                 - angularVelocity (owner r)) / ReachOrientation.timeToTarget r\<bar>)
                            else ((if \<bar>rotation\<bar> \<le> ReachOrientation.decelerationRadius r
                then getMaxAngularSpeed (getActualLimiter r) *
                       (\<bar>rotation\<bar> / ReachOrientation.decelerationRadius r)
                else getMaxAngularSpeed (getActualLimiter r)) * (rotation / \<bar>rotation\<bar>)
                 - angularVelocity (owner r)) / ReachOrientation.timeToTarget r)\<rparr>"
    using far unfolding reachOrientation_unfold Let_def rotation_def
    by (simp only: not_le [symmetric] if_False)
  then have out: "reachOrientation r steering targetOrientation =
      steering\<lparr>linear_acc := \<lparr>data0 = 0, data1 = 0\<rparr>,
                angular := (if \<bar>wanted\<bar> > ?m then wanted * (?m / \<bar>wanted\<bar>) else wanted)\<rparr>"
    unfolding tr wanted_def [symmetric] .
  show "linear_acc (reachOrientation r steering targetOrientation) = \<lparr>data0 = 0, data1 = 0\<rparr>"
    by (simp add: out)
  show "angular (reachOrientation r steering targetOrientation) =
              (if \<bar>wanted\<bar> \<le> ?m then wanted else ?m * sgn wanted)"
    using clamp_by_ratio(1) [OF cap, of wanted] by (simp add: out)
  show "\<bar>angular (reachOrientation r steering targetOrientation)\<bar> \<le> ?m"
    using clamp_by_ratio(2) [OF cap, of wanted] by (simp add: out)
qed


lemma wrapAngleAroundZero_one: "wrapAngleAroundZero 1 = 1"
proof -
  have p2: "2 \<le> pi" by (rule pi_ge_two)
  have "0 \<le> 1 / PI2" and "1 / PI2 < 1"
    using p2 by (simp_all add: PI2_def)
  then have fl: "\<lfloor>1 / PI2\<rfloor> = 0"
    by (simp add: floor_eq_iff)
  have rem: "js_rem 1 PI2 = 1"
    by (simp add: js_rem_nonneg(1) fl)
  show ?thesis
    using p2 by (simp add: wrapAngleAroundZero_def Let_def rem)
qed

lemma wrapAngleAroundZero_zero: "wrapAngleAroundZero 0 = 0"
  by (simp add: wrapAngleAroundZero_def Let_def js_rem_def)

lemma getActualLimiter_example_reach:
  "getMaxAngularAcceleration (getActualLimiter example_reach) = 1"
  "getMaxAngularSpeed (getActualLimiter example_reach) = 3"
  by (simp_all add: getActualLimiter_def example_reach_def example_owner_def Limiter.truncate_def)

theorem ReachOrientation_steering_witness:
  "0 \<le> alignTolerance example_reach \<and> ReachOrientation.timeToTarget example_reach \<noteq> 0 \<and>
   0 \<le> getMaxAngularAcceleration (getActualLimiter example_reach) \<and>
   wrapAngleAroundZero (1 - orientation (owner example_reach)) = 1 \<and>
   reachOrientation example_reach zero_steering 1 =
     \<lparr>linear_acc = \<lparr>data0 = 0, data1 = 0\<rparr>, angular = 1\<rparr> \<and>
   wrapAngleAroundZero (0 - orientation (owner example_reach)) = 0 \<and>
   reachOrientation example_reach zero_steering 0 =
     \<lparr>linear_acc = \<lparr>data0 = 0, data1 = 0\<rparr>, angular = 0\<rparr>"
proof -
  have tol: "0 \<le> alignTolerance example_reach"
    and ttt: "ReachOrientation.timeToTarget example_reach \<noteq> 0"
    and cap: "0 \<le> getMaxAngularAcceleration (getActualLimiter example_reach)"
    by (simp_all add: getActualLimiter_example_reach) (simp_all add: example_reach_def)
  have vals: "ReachOrientation.decelerationRadius example_reach = 2"
    "ReachOrientation.timeToTarget example_reach = 1 / 10"
    "alignTolerance example_reach = 1 / 100"
    "angularVelocity (owner example_reach) = 0"
    "orientation (owner example_reach) = 0"
    by (simp_all add: example_reach_def example_owner_def)
  have rot1: "wrapAngleAroundZero (1 - orientation (owner example_reach)) = 1"
    by (simp add: vals wrapAngleAroundZero_one)
  have rot0: "wrapAngleAroundZero (0 - orientation (owner example_reach)) = 0"
    by (simp add: vals wrapAngleAroundZero_zero)
  have far: "alignTolerance example_reach
      < \<bar>wrapAngleAroundZero (1 - orientation (owner example_reach))\<bar>"
    by (simp add: vals wrapAngleAroundZero_one)
  have near: "\<bar>wrapAngleAroundZero (0 - orientation (owner example_reach))\<bar>
      \<le> alignTolerance example_reach"
    by (simp add: vals wrapAngleAroundZero_zero)
  note t = ReachOrientation_steering [where r = example_reach and steering = zero_steering
      and targetOrientation = 1, OF tol ttt cap]
  note t1 = t [THEN conjunct2, THEN conjunct2, THEN conjunct2, THEN conjunct2, THEN conjunct2,
      rule_format, OF far]
  from t1 have lin: "linear_acc (reachOrientation example_reach zero_steering 1)
      = \<lparr>data0 = 0, data1 = 0\<rparr>"
    and ang: "angular (reachOrientation example_reach zero_steering 1) = 1"
    by (simp_all add: vals wrapAngleAroundZero_one getActualLimiter_example_reach)
  have one: "reachOrientation example_reach zero_steering 1 =
     \<lparr>linear_acc = \<lparr>data0 = 0, data1 = 0\<rparr>, angular = 1\<rparr>"
    using lin ang by (cases "reachOrientation example_reach zero_steering 1") simp
  have zero: "reachOrientation example_reach zero_steering 0 =
     \<lparr>linear_acc = \<lparr>data0 = 0, data1 = 0\<rparr>, angular = 0\<rparr>"
    by (rule ReachOrientation_steering [where r = example_reach and steering = zero_steering
      and targetOrientation = 0, OF tol ttt cap, THEN conjunct2, THEN conjunct2, THEN conjunct2,
      THEN conjunct2, THEN conjunct1, rule_format, OF near])
  from tol ttt cap rot1 rot0 one zero show ?thesis by simp
qed

section \<open>Properties of CollisionAvoidance\<close>

lemma Vector2_eq_iff: "v = w \<longleftrightarrow> data0 v = data0 w \<and> data1 v = data1 w" for v w :: Vector2
  by (cases v, cases w) simp

lemma sqrLen_sub_zero_iff: "Vector2_sqrLen (Vector2_sub v w) = 0 \<longleftrightarrow> v = w"
proof -
  have "(data0 v - data0 w) * (data0 v - data0 w) + (data1 v - data1 w) * (data1 v - data1 w) = 0
        \<longleftrightarrow> data0 v = data0 w \<and> data1 v = data1 w"
    by (simp add: sum_squares_eq_zero_iff [unfolded power2_eq_square] add_nonneg_eq_0_iff)
  then show ?thesis
    by (simp add: Vector2_defs Vector2_eq_iff [of v w])
qed

lemma js_div_finite: "b \<noteq> 0 \<Longrightarrow> js_div a b = Finite (a / b)"
  by (simp add: js_div_def)

text \<open>
  What the guard of \<open>reportNeighbor\<close> is for: the quotient of zero by zero is NaN, no
  test of the method rejects a NaN time, and the separation computed from it is NaN too.
\<close>

lemma num_le_NaN [simp]: "\<not> num_le s NaN"
  by (cases s) simp_all

lemma num_less_NaN [simp]: "\<not> num_less s NaN"
  by (cases s) simp_all

lemma NaN_passes_every_test:
  "js_div (- 0) 0 = NaN"
  "\<not> num_le NaN (Finite 0)"
  "\<not> num_le s NaN"
  "fin_minus_num d (num_times_fin x NaN) = NaN"
  "\<not> num_less (Finite r) NaN"
  by (simp_all add: js_div_def)

lemma reportNeighbor_result:
  "reportNeighbor ca h n =
     (let rp = Vector2_sub (position (h n)) (position (owner ca));
          rv = Vector2_sub (linearVelocity (h n)) (linearVelocity (owner ca));
          ca' = ca\<lparr>relativePosition := rp, relativeVelocity := rv\<rparr>
      in if collision_candidate (owner ca) (shortestTime ca) (h n)
         then (True, ca'\<lparr>shortestTime := Finite (time_to_closest_approach (owner ca) (h n)),
                          firstNeighbor := Some n,
                          firstMinSeparation := Finite (minimum_separation (owner ca) (h n)),
                          firstDistance := Vector2_len rp,
                          firstRelativePosition := rp,
                          firstRelativeVelocity := rv\<rparr>)
         else (False, ca'))"
proof -
  have z: "Vector2_sqrLen (Vector2_sub (linearVelocity (h n)) (linearVelocity (owner ca))) = 0
        \<longleftrightarrow> linearVelocity (h n) = linearVelocity (owner ca)"
    by (rule sqrLen_sub_zero_iff)
  show ?thesis
  proof (cases "linearVelocity (h n) = linearVelocity (owner ca)")
    case True
    with z show ?thesis
      by (simp add: reportNeighbor_def Let_def Vector2_copy_def collision_candidate_def)
  next
    case False
    with z have nz: "Vector2_sqrLen (Vector2_sub (linearVelocity (h n)) (linearVelocity (owner ca))) \<noteq> 0"
      by simp
    have l: "sqrt (Vector2_sqrLen v) = Vector2_len v" for v
      by (simp add: Vector2_len_sqrLen)
    show ?thesis
      using False nz
      by (auto simp: reportNeighbor_def Let_def Vector2_copy_def collision_candidate_def
            time_to_closest_approach_def minimum_separation_def l not_le not_less js_div_finite)
  qed
qed


lemma collision_candidate_cong:
  assumes "position nb' = position nb" "linearVelocity nb' = linearVelocity nb"
    "boundingRadius nb' = boundingRadius nb"
  shows "collision_candidate own s nb' = collision_candidate own s nb"
proof -
  have t: "time_to_closest_approach own nb' = time_to_closest_approach own nb"
    by (simp add: time_to_closest_approach_def assms)
  have m: "minimum_separation own nb' = minimum_separation own nb"
    by (simp add: minimum_separation_def t assms)
  show ?thesis
    unfolding collision_candidate_def t m assms ..
qed

lemma reportNeighbor_rejected:
  assumes "\<not> collision_candidate (owner ca) (shortestTime ca) (h n)"
  shows "reportNeighbor ca h n =
    (False, ca\<lparr>relativePosition := Vector2_sub (position (h n)) (position (owner ca)),
               relativeVelocity := Vector2_sub (linearVelocity (h n)) (linearVelocity (owner ca))\<rparr>)"
  using assms by (simp add: reportNeighbor_result Let_def)

text \<open>
  Whatever the neighbors are, a most imminent neighbor is only ever stored together
  with a finite time and a finite separation.
\<close>

lemma reportNeighbor_finite_when_found:
  assumes "finite_when_found c"
  shows "finite_when_found (snd (reportNeighbor c h n))"
  using assms by (auto simp: reportNeighbor_result Let_def finite_when_found_def)

lemma scan_agents_finite_when_found:
  assumes "finite_when_found c"
  shows "finite_when_found (fst (snd (scan_agents reportNeighbor this ownerPosition as (h, c, k))))"
  using assms
proof (induction as arbitrary: h c k)
  case Nil
  then show ?case by simp
next
  case (Cons a as)
  obtain b c1 where r: "reportNeighbor c h a = (b, c1)"
    by (cases "reportNeighbor c h a") blast
  from reportNeighbor_finite_when_found [OF Cons.prems, of h a] r
  have c1: "finite_when_found c1" by simp
  show ?case
    using Cons.IH [OF Cons.prems] Cons.IH [OF c1] r
    by (cases b) (simp_all add: Let_def)
qed

lemma replay_agents_finite_when_found:
  assumes "finite_when_found c"
  shows "finite_when_found (fst (snd (replay_agents reportNeighbor this as (h, c, k))))"
  using assms
proof (induction as arbitrary: c k)
  case Nil
  then show ?case by simp
next
  case (Cons a as)
  obtain b c1 where r: "reportNeighbor c h a = (b, c1)"
    by (cases "reportNeighbor c h a") blast
  from reportNeighbor_finite_when_found [OF Cons.prems, of h a] r
  have c1: "finite_when_found c1" by simp
  show ?case
    using Cons.IH [OF Cons.prems] Cons.IH [OF c1] r
    by (cases b) simp_all
qed

lemma findNeighbors_finite_when_found:
  assumes "finite_when_found c"
  shows "finite_when_found (snd (snd (snd (findNeighbors reportNeighbor currentTime this h c))))"
proof (cases "lastTime this \<noteq> currentTime")
  case True
  let ?p = "this\<lparr>lastTime := currentTime\<rparr>"
  obtain h' c' k where s: "scan_agents reportNeighbor ?p (position (h (proximity_owner this)))
      (agents this) (h, c, 0) = (h', c', k)"
    by (rule prod_cases3)
  from scan_agents_finite_when_found [OF assms, of ?p "position (h (proximity_owner this))"
      "agents this" h 0] s
  have "finite_when_found c'" by simp
  with True s show ?thesis
    by (simp add: findNeighbors_def)
next
  case False
  obtain h' c' k where s: "replay_agents reportNeighbor this (agents this) (h, c, 0) = (h', c', k)"
    by (rule prod_cases3)
  from replay_agents_finite_when_found [OF assms, of this "agents this" h 0] s
  have "finite_when_found c'" by simp
  with False s show ?thesis
    by (simp add: findNeighbors_def)
qed

lemma CollisionAvoidance_returns_steering:
  "CollisionAvoidance_calculateRealSteering ca currentTime h steering \<noteq> None"
proof -
  let ?c = "ca\<lparr>shortestTime := PosInfinity, firstNeighbor := None, firstMinSeparation := Finite 0,
                firstDistance := 0, relativePosition := linear_acc steering\<rparr>"
  have "finite_when_found ?c"
    by (simp add: finite_when_found_def)
  from findNeighbors_finite_when_found [OF this, of currentTime "proximity ?c" h]
  obtain k p' h' c' where f: "findNeighbors reportNeighbor currentTime (proximity ?c) h ?c
      = (k, p', h', c')" and fin: "finite_when_found c'"
    by (cases "findNeighbors reportNeighbor currentTime (proximity ?c) h ?c") auto
  show ?thesis
  proof (cases "firstNeighbor c'")
    case None
    with f show ?thesis
      by (simp add: CollisionAvoidance_calculateRealSteering_def Let_def)
  next
    case (Some first)
    with fin obtain t where "shortestTime c' = Finite t"
      by (auto simp: finite_when_found_def)
    with f Some show ?thesis
      by (simp add: CollisionAvoidance_calculateRealSteering_def Let_def)
  qed
qed


lemma scan_agents_no_candidate:
  assumes "same_bodies h0 h" "shortestTime c = PosInfinity" "firstNeighbor c = None"
    and "\<forall>a\<in>set as. a \<noteq> proximity_owner this \<and>
           Vector2_dst2 ownerPosition (position (h0 a))
             < (radius this + boundingRadius (h0 a)) * (radius this + boundingRadius (h0 a)) \<longrightarrow>
           \<not> collision_candidate (owner c) PosInfinity (h0 a)"
  shows "\<exists>h' c'. scan_agents reportNeighbor this ownerPosition as (h, c, k) = (h', c', k) \<and>
           shortestTime c' = PosInfinity \<and> firstNeighbor c' = None \<and> owner c' = owner c"
  using assms
proof (induction as arbitrary: h c)
  case Nil
  then show ?case by simp
next
  case (Cons a as)
  let ?c = "c\<lparr>relativePosition := Vector2_sub (position (h a)) (position (owner c)),
               relativeVelocity := Vector2_sub (linearVelocity (h a)) (linearVelocity (owner c))\<rparr>"
  let ?R = "a \<noteq> proximity_owner this \<and>
           Vector2_dst2 ownerPosition (position (h0 a))
             < (radius this + boundingRadius (h0 a)) * (radius this + boundingRadius (h0 a))"
  from Cons.prems(1) have pos: "position (h a) = position (h0 a)"
    and rad: "boundingRadius (h a) = boundingRadius (h0 a)"
    by (simp_all add: same_bodies_def)
  have sb: "same_bodies h0 (setTagged h a False)"
    by (rule same_bodies_setTagged [OF Cons.prems(1)])
  have rest: "\<forall>a\<in>set as. a \<noteq> proximity_owner this \<and>
           Vector2_dst2 ownerPosition (position (h0 a))
             < (radius this + boundingRadius (h0 a)) * (radius this + boundingRadius (h0 a)) \<longrightarrow>
           \<not> collision_candidate (owner c) PosInfinity (h0 a)"
    using Cons.prems(4) by simp
  show ?case
  proof (cases ?R)
    case False
    then have step: "scan_agents reportNeighbor this ownerPosition (a # as) (h, c, k) =
      scan_agents reportNeighbor this ownerPosition as (setTagged h a False, c, k)"
      by (auto simp: Let_def pos rad)
    from Cons.IH [OF sb Cons.prems(2) Cons.prems(3) rest] step show ?thesis
      by simp
  next
    case True
    from Cons.prems(1) have "collision_candidate (owner c) PosInfinity (h a)
        = collision_candidate (owner c) PosInfinity (h0 a)"
      by (intro collision_candidate_cong) (simp_all add: same_bodies_def)
    with Cons.prems(4) True have "\<not> collision_candidate (owner c) (shortestTime c) (h a)"
      by (simp add: Cons.prems(2))
    then have rej: "reportNeighbor c h a = (False, ?c)"
      by (rule reportNeighbor_rejected)
    from True have step: "scan_agents reportNeighbor this ownerPosition (a # as) (h, c, k) =
      scan_agents reportNeighbor this ownerPosition as (setTagged h a False, ?c, k)"
      by (simp add: Let_def pos rad rej)
    have "shortestTime ?c = PosInfinity" "firstNeighbor ?c = None"
      "\<forall>a\<in>set as. a \<noteq> proximity_owner this \<and>
           Vector2_dst2 ownerPosition (position (h0 a))
             < (radius this + boundingRadius (h0 a)) * (radius this + boundingRadius (h0 a)) \<longrightarrow>
           \<not> collision_candidate (owner ?c) PosInfinity (h0 a)"
      using Cons.prems(2,3) rest by simp_all
    from Cons.IH [OF sb this] step show ?thesis
      by simp
  qed
qed

lemma replay_agents_no_candidate:
  assumes "shortestTime c = PosInfinity" "firstNeighbor c = None"
    and "\<forall>a\<in>set as. a \<noteq> proximity_owner this \<and> tagged (h a) \<longrightarrow>
           \<not> collision_candidate (owner c) PosInfinity (h a)"
  shows "\<exists>c'. replay_agents reportNeighbor this as (h, c, k) = (h, c', k) \<and>
           shortestTime c' = PosInfinity \<and> firstNeighbor c' = None \<and> owner c' = owner c"
  using assms
proof (induction as arbitrary: c)
  case Nil
  then show ?case by simp
next
  case (Cons a as)
  let ?c = "c\<lparr>relativePosition := Vector2_sub (position (h a)) (position (owner c)),
               relativeVelocity := Vector2_sub (linearVelocity (h a)) (linearVelocity (owner c))\<rparr>"
  have rest: "\<forall>a\<in>set as. a \<noteq> proximity_owner this \<and> tagged (h a) \<longrightarrow>
           \<not> collision_candidate (owner c) PosInfinity (h a)"
    using Cons.prems(3) by simp
  show ?case
  proof (cases "a \<noteq> proximity_owner this \<and> tagged (h a)")
    case False
    then have step: "replay_agents reportNeighbor this (a # as) (h, c, k) =
      replay_agents reportNeighbor this as (h, c, k)"
      by auto
    from Cons.IH [OF Cons.prems(1) Cons.prems(2) rest] step show ?thesis
      by simp
  next
    case True
    with Cons.prems(3) have "\<not> collision_candidate (owner c) (shortestTime c) (h a)"
      by (simp add: Cons.prems(1))
    then have rej: "reportNeighbor c h a = (False, ?c)"
      by (rule reportNeighbor_rejected)
    from True have step: "replay_agents reportNeighbor this (a # as) (h, c, k) =
      replay_agents reportNeighbor this as (h, ?c, k)"
      by (simp add: rej)
    have "shortestTime ?c = PosInfinity" "firstNeighbor ?c = None"
      "\<forall>a\<in>set as. a \<noteq> proximity_owner this \<and> tagged (h a) \<longrightarrow>
           \<not> collision_candidate (owner ?c) PosInfinity (h a)"
      using Cons.prems(1,2) rest by simp_all
    from Cons.IH [OF this] step show ?thesis
      by simp
  qed
qed

lemma findNeighbors_no_candidate:
  assumes "shortestTime c = PosInfinity" "firstNeighbor c = None"
    and "\<forall>a\<in>set (neighbors this currentTime h). \<not> collision_candidate (owner c) PosInfinity (h a)"
  shows "\<exists>this' h' c'. findNeighbors reportNeighbor currentTime this h c = (0, this', h', c') \<and>
           firstNeighbor c' = None"
proof (cases "lastTime this \<noteq> currentTime")
  case True
  let ?p = "this\<lparr>lastTime := currentTime\<rparr>"
  let ?op = "position (h (proximity_owner this))"
  from assms(3) True
  have "\<forall>a\<in>set (agents this). a \<noteq> proximity_owner ?p \<and>
           Vector2_dst2 ?op (position (h a))
             < (radius ?p + boundingRadius (h a)) * (radius ?p + boundingRadius (h a)) \<longrightarrow>
           \<not> collision_candidate (owner c) PosInfinity (h a)"
    by (simp add: neighbors_def within_radius_def)
  from scan_agents_no_candidate [OF same_bodies_refl assms(1,2) this, of 0]
  obtain h' c' where "scan_agents reportNeighbor ?p ?op (agents this) (h, c, 0) = (h', c', 0)"
    "firstNeighbor c' = None"
    by auto
  with True show ?thesis
    by (simp add: findNeighbors_def)
next
  case False
  with assms(3)
  have "\<forall>a\<in>set (agents this). a \<noteq> proximity_owner this \<and> tagged (h a) \<longrightarrow>
           \<not> collision_candidate (owner c) PosInfinity (h a)"
    by (simp add: neighbors_def)
  from replay_agents_no_candidate [OF assms(1,2) this, of 0]
  obtain c' where "replay_agents reportNeighbor this (agents this) (h, c, 0) = (h, c', 0)"
    "firstNeighbor c' = None"
    by auto
  with False show ?thesis
    by (simp add: findNeighbors_def)
qed

lemma CollisionAvoidance_no_candidate:
  assumes "\<forall>a\<in>set (neighbors (proximity ca) currentTime h).
             \<not> collision_candidate (owner ca) PosInfinity (h a)"
  shows "map_option fst (CollisionAvoidance_calculateRealSteering ca currentTime h steering) =
    Some \<lparr>linear_acc = \<lparr>data0 = 0, data1 = 0\<rparr>, angular = 0\<rparr>"
proof -
  let ?c = "ca\<lparr>shortestTime := PosInfinity, firstNeighbor := None, firstMinSeparation := Finite 0,
                firstDistance := 0, relativePosition := linear_acc steering\<rparr>"
  have "shortestTime ?c = PosInfinity" "firstNeighbor ?c = None"
    "\<forall>a\<in>set (neighbors (proximity ?c) currentTime h).
       \<not> collision_candidate (owner ?c) PosInfinity (h a)"
    using assms by simp_all
  from findNeighbors_no_candidate [OF this]
  obtain this' h' c' where
    "findNeighbors reportNeighbor currentTime (proximity ?c) h ?c = (0, this', h', c')"
    "firstNeighbor c' = None"
    by blast
  then show ?thesis
    by (simp add: CollisionAvoidance_calculateRealSteering_def Let_def
        SteeringAcceleration_setZero_def Vector2_setZero_def)
qed



text \<open>
  With a finite shortest time so far, a candidate is a neighbor that would be one with
  no time so far and whose time is earlier.
\<close>

lemma collision_candidate_Finite:
  "collision_candidate own (Finite t) nb \<longleftrightarrow>
     collision_candidate own PosInfinity nb \<and> time_to_closest_approach own nb < t"
  by (auto simp: collision_candidate_def)

lemma time_to_closest_approach_cong:
  assumes "position nb' = position nb" "linearVelocity nb' = linearVelocity nb"
  shows "time_to_closest_approach own nb' = time_to_closest_approach own nb"
  by (simp add: time_to_closest_approach_def assms)

lemma minimum_separation_cong:
  assumes "position nb' = position nb" "linearVelocity nb' = linearVelocity nb"
  shows "minimum_separation own nb' = minimum_separation own nb"
  by (simp add: minimum_separation_def time_to_closest_approach_def assms)

lemma reportNeighbor_owner [simp]: "owner (snd (reportNeighbor c h n)) = owner c"
  by (simp add: reportNeighbor_result Let_def)

lemma reportNeighbor_most_imminent:
  assumes mi: "most_imminent (owner c) h0 ns c"
    and same: "position (h n) = position (h0 n)" "linearVelocity (h n) = linearVelocity (h0 n)"
      "boundingRadius (h n) = boundingRadius (h0 n)"
  shows "most_imminent (owner c) h0 (ns @ [n]) (snd (reportNeighbor c h n))"
proof -
  have cc: "collision_candidate (owner c) s (h n) = collision_candidate (owner c) s (h0 n)" for s
    by (rule collision_candidate_cong [OF same])
  have tt: "time_to_closest_approach (owner c) (h n) = time_to_closest_approach (owner c) (h0 n)"
    by (rule time_to_closest_approach_cong [OF same(1,2)])
  have mm: "minimum_separation (owner c) (h n) = minimum_separation (owner c) (h0 n)"
    by (rule minimum_separation_cong [OF same(1,2)])
  show ?thesis
  proof (cases "firstNeighbor c")
    case None
    with mi have s: "shortestTime c = PosInfinity"
      and no: "\<forall>a\<in>set ns. \<not> collision_candidate (owner c) PosInfinity (h0 a)"
      by (simp_all add: most_imminent_def)
    show ?thesis
      using None no
      by (simp add: reportNeighbor_result Let_def most_imminent_def s cc tt mm)
  next
    case (Some b)
    with mi have b: "b \<in> set ns" "collision_candidate (owner c) PosInfinity (h0 b)"
      and s: "shortestTime c = Finite (time_to_closest_approach (owner c) (h0 b))"
      and m: "firstMinSeparation c = Finite (minimum_separation (owner c) (h0 b))"
      and le: "\<forall>a\<in>set ns. collision_candidate (owner c) PosInfinity (h0 a) \<longrightarrow>
             time_to_closest_approach (owner c) (h0 b) \<le> time_to_closest_approach (owner c) (h0 a)"
      by (simp_all add: most_imminent_def)
    show ?thesis
    proof (cases "collision_candidate (owner c) PosInfinity (h0 n) \<and>
        time_to_closest_approach (owner c) (h0 n) < time_to_closest_approach (owner c) (h0 b)")
      case True
      with le have "\<forall>a\<in>set ns. collision_candidate (owner c) PosInfinity (h0 a) \<longrightarrow>
             time_to_closest_approach (owner c) (h0 n) \<le> time_to_closest_approach (owner c) (h0 a)"
        by fastforce
      with True show ?thesis
        by (simp add: reportNeighbor_result Let_def most_imminent_def s cc tt mm
            collision_candidate_Finite)
    next
      case False
      then have "collision_candidate (owner c) PosInfinity (h0 n) \<longrightarrow>
          time_to_closest_approach (owner c) (h0 b) \<le> time_to_closest_approach (owner c) (h0 n)"
        by auto
      with False Some b s m le show ?thesis
        by (auto simp: reportNeighbor_result Let_def most_imminent_def cc tt mm
            collision_candidate_Finite)
    qed
  qed
qed

lemma scan_agents_most_imminent:
  assumes "same_bodies h0 h" "most_imminent (owner c) h0 ns c"
  shows "most_imminent (owner c) h0
           (ns @ filter (\<lambda>a. a \<noteq> proximity_owner this \<and>
                  Vector2_dst2 ownerPosition (position (h0 a))
                    < (radius this + boundingRadius (h0 a)) * (radius this + boundingRadius (h0 a))) as)
           (fst (snd (scan_agents reportNeighbor this ownerPosition as (h, c, k))))"
  using assms
proof (induction as arbitrary: h c k ns)
  case Nil
  then show ?case by simp
next
  case (Cons a as)
  let ?R = "\<lambda>a. a \<noteq> proximity_owner this \<and>
            Vector2_dst2 ownerPosition (position (h0 a))
              < (radius this + boundingRadius (h0 a)) * (radius this + boundingRadius (h0 a))"
  from Cons.prems(1) have pos: "position (h a) = position (h0 a)"
    and rad: "boundingRadius (h a) = boundingRadius (h0 a)"
    and vel: "linearVelocity (h a) = linearVelocity (h0 a)"
    by (simp_all add: same_bodies_def)
  show ?case
  proof (cases "?R a")
    case False
    then have step: "scan_agents reportNeighbor this ownerPosition (a # as) (h, c, k) =
      scan_agents reportNeighbor this ownerPosition as (setTagged h a False, c, k)"
      by (auto simp: Let_def pos rad)
    from False have f: "filter ?R (a # as) = filter ?R as" by simp
    from Cons.IH [OF same_bodies_setTagged [OF Cons.prems(1)] Cons.prems(2)]
    show ?thesis
      unfolding step f .
  next
    case True
    obtain b c1 where r: "reportNeighbor c h a = (b, c1)"
      by (cases "reportNeighbor c h a") blast
    from reportNeighbor_most_imminent [where c = c and ns = ns and h = h and n = a and h0 = h0,
        OF Cons.prems(2) pos vel rad] r
    have m1: "most_imminent (owner c) h0 (ns @ [a]) c1" by simp
    from reportNeighbor_owner [of c h a] r have o1: "owner c1 = owner c" by simp
    let ?k = "if b then k + 1 else k"
    from True have step: "scan_agents reportNeighbor this ownerPosition (a # as) (h, c, k) =
      scan_agents reportNeighbor this ownerPosition as (setTagged h a b, c1, ?k)"
      by (cases b) (simp_all add: Let_def pos rad r)
    from True have f: "ns @ filter ?R (a # as) = (ns @ [a]) @ filter ?R as" by simp
    from m1 o1 have m1': "most_imminent (owner c1) h0 (ns @ [a]) c1" by simp
    from Cons.IH [OF same_bodies_setTagged [OF Cons.prems(1)] m1', where k = ?k and b1 = b]
    show ?thesis
      unfolding step f o1 .
  qed
qed

lemma replay_agents_most_imminent:
  assumes "most_imminent (owner c) h ns c"
  shows "most_imminent (owner c) h
           (ns @ filter (\<lambda>a. a \<noteq> proximity_owner this \<and> tagged (h a)) as)
           (fst (snd (replay_agents reportNeighbor this as (h, c, k))))"
  using assms
proof (induction as arbitrary: c k ns)
  case Nil
  then show ?case by simp
next
  case (Cons a as)
  let ?R = "\<lambda>a. a \<noteq> proximity_owner this \<and> tagged (h a)"
  show ?case
  proof (cases "?R a")
    case False
    then have step: "replay_agents reportNeighbor this (a # as) (h, c, k) =
      replay_agents reportNeighbor this as (h, c, k)"
      by auto
    from False have f: "filter ?R (a # as) = filter ?R as" by simp
    from Cons.IH [OF Cons.prems]
    show ?thesis
      unfolding step f .
  next
    case True
    obtain b c1 where r: "reportNeighbor c h a = (b, c1)"
      by (cases "reportNeighbor c h a") blast
    from reportNeighbor_most_imminent [where c = c and ns = ns and h = h and n = a and h0 = h,
        OF Cons.prems refl refl refl] r
    have m1: "most_imminent (owner c) h (ns @ [a]) c1" by simp
    from reportNeighbor_owner [of c h a] r have o1: "owner c1 = owner c" by simp
    let ?k = "if b then k + 1 else k"
    from True have step: "replay_agents reportNeighbor this (a # as) (h, c, k) =
      replay_agents reportNeighbor this as (h, c1, ?k)"
      by (cases b) (simp_all add: r)
    from True have f: "ns @ filter ?R (a # as) = (ns @ [a]) @ filter ?R as" by simp
    from m1 o1 have m1': "most_imminent (owner c1) h (ns @ [a]) c1" by simp
    from Cons.IH [OF m1', where k = ?k]
    show ?thesis
      unfolding step f o1 .
  qed
qed

lemma findNeighbors_most_imminent:
  assumes "shortestTime c = PosInfinity" "firstNeighbor c = None"
  shows "most_imminent (owner c) h (neighbors this currentTime h)
           (snd (snd (snd (findNeighbors reportNeighbor currentTime this h c))))"
proof -
  from assms have start: "most_imminent (owner c) h [] c"
    by (simp add: most_imminent_def)
  show ?thesis
  proof (cases "lastTime this \<noteq> currentTime")
    case True
    let ?p = "this\<lparr>lastTime := currentTime\<rparr>"
    let ?op = "position (h (proximity_owner this))"
    obtain h' c' k where s: "scan_agents reportNeighbor ?p ?op (agents this) (h, c, 0) = (h', c', k)"
      by (rule prod_cases3)
    from scan_agents_most_imminent [OF same_bodies_refl start, where this = ?p
        and ownerPosition = ?op and as = "agents this" and k = 0] s
    have "most_imminent (owner c) h
        (filter (\<lambda>a. a \<noteq> proximity_owner this \<and> within_radius this h a) (agents this)) c'"
      by (simp add: within_radius_def)
    with True s show ?thesis
      by (simp add: findNeighbors_def neighbors_def)
  next
    case False
    obtain h' c' k where s: "replay_agents reportNeighbor this (agents this) (h, c, 0) = (h', c', k)"
      by (rule prod_cases3)
    from replay_agents_most_imminent [OF start, where this = this and as = "agents this"
        and k = 0] s
    have "most_imminent (owner c) h
        (filter (\<lambda>a. a \<noteq> proximity_owner this \<and> tagged (h a)) (agents this)) c'"
      by simp
    with False s show ?thesis
      by (simp add: findNeighbors_def neighbors_def)
  qed
qed

lemma most_imminent_cong:
  assumes "firstNeighbor c' = firstNeighbor c" "shortestTime c' = shortestTime c"
    "firstMinSeparation c' = firstMinSeparation c"
  shows "most_imminent own h ns c' = most_imminent own h ns c"
  by (simp add: most_imminent_def assms split: option.splits)

lemma CollisionAvoidance_most_imminent:
  "\<exists>out ca' h'.
     CollisionAvoidance_calculateRealSteering ca currentTime h steering = Some (out, ca', h') \<and>
     most_imminent (owner ca) h (neighbors (proximity ca) currentTime h) ca'"
proof -
  let ?c = "ca\<lparr>shortestTime := PosInfinity, firstNeighbor := None, firstMinSeparation := Finite 0,
                firstDistance := 0, relativePosition := linear_acc steering\<rparr>"
  obtain k p1 h1 c1 where f: "findNeighbors reportNeighbor currentTime (proximity ?c) h ?c
      = (k, p1, h1, c1)"
    by (cases "findNeighbors reportNeighbor currentTime (proximity ?c) h ?c") auto
  have "shortestTime ?c = PosInfinity" "firstNeighbor ?c = None"
    by simp_all
  from findNeighbors_most_imminent [OF this, of h "proximity ?c" currentTime] f
  have mi: "most_imminent (owner ca) h (neighbors (proximity ca) currentTime h) c1"
    by simp
  from CollisionAvoidance_returns_steering [of ca currentTime h steering]
  obtain out ca' h' where
    r: "CollisionAvoidance_calculateRealSteering ca currentTime h steering = Some (out, ca', h')"
    by (cases "CollisionAvoidance_calculateRealSteering ca currentTime h steering") auto
  from r f have "firstNeighbor ca' = firstNeighbor c1 \<and> shortestTime ca' = shortestTime c1 \<and>
      firstMinSeparation ca' = firstMinSeparation c1"
    by (auto simp: CollisionAvoidance_calculateRealSteering_def Let_def
        split: option.splits if_splits number.splits)
  then have "most_imminent (owner ca) h (neighbors (proximity ca) currentTime h) ca'
      = most_imminent (owner ca) h (neighbors (proximity ca) currentTime h) c1"
    by (intro most_imminent_cong) simp_all
  with mi r show ?thesis by blast
qed


text \<open>
  Claim C6. \<open>reportNeighbor\<close> treats a neighbor whose velocity relative to the owner is
  zero as no collision: it returns \<open>false\<close> before the quotient \<open>0/0\<close> is formed and
  stores nothing but the two scratch vectors. It likewise returns \<open>false\<close> for a neighbor
  whose time to the closest approach is negative, for one whose time is not below the
  shortest time stored so far, and for one whose minimum separation exceeds the sum of
  the two bounding radii. Altogether it accepts exactly the candidates, an accepted
  neighbor becomes the first neighbor with its own time and separation as the shortest
  time and the first separation, and a rejected one leaves them as they were; so a
  shortest time that is not NaN stays so. \<open>calculateRealSteering\<close> always returns
  a steering of finite numbers, and leaves as first neighbor a candidate with the
  earliest time among the neighbors that the proximity has reported, if there is one.
  When none of the reported neighbors is a candidate, whatever the agents that are not
  reported do, the steering returned is exactly zero.
\<close>

theorem CollisionAvoidance_rejections:
  "(linearVelocity (h n) = linearVelocity (owner ca) \<longrightarrow>
      reportNeighbor ca h n =
        (False, ca\<lparr>relativePosition := Vector2_sub (position (h n)) (position (owner ca)),
                   relativeVelocity := Vector2_sub (linearVelocity (h n)) (linearVelocity (owner ca))\<rparr>)) \<and>
   (time_to_closest_approach (owner ca) (h n) < 0 \<longrightarrow> \<not> fst (reportNeighbor ca h n)) \<and>
   ((\<exists>t. shortestTime ca = Finite t \<and> t \<le> time_to_closest_approach (owner ca) (h n)) \<longrightarrow>
      \<not> fst (reportNeighbor ca h n)) \<and>
   (minimum_separation (owner ca) (h n) > boundingRadius (owner ca) + boundingRadius (h n) \<longrightarrow>
      \<not> fst (reportNeighbor ca h n)) \<and>
   reportNeighbor ca h n =
     (let rp = Vector2_sub (position (h n)) (position (owner ca));
          rv = Vector2_sub (linearVelocity (h n)) (linearVelocity (owner ca));
          ca' = ca\<lparr>relativePosition := rp, relativeVelocity := rv\<rparr>
      in if collision_candidate (owner ca) (shortestTime ca) (h n)
         then (True, ca'\<lparr>shortestTime := Finite (time_to_closest_approach (owner ca) (h n)),
                          firstNeighbor := Some n,
                          firstMinSeparation := Finite (minimum_separation (owner ca) (h n)),
                          firstDistance := Vector2_len rp,
                          firstRelativePosition := rp,
                          firstRelativeVelocity := rv\<rparr>)
         else (False, ca')) \<and>
   (shortestTime ca \<noteq> NaN \<longrightarrow> shortestTime (snd (reportNeighbor ca h n)) \<noteq> NaN) \<and>
   (\<exists>out ca' h'.
      CollisionAvoidance_calculateRealSteering ca currentTime h steering = Some (out, ca', h') \<and>
      most_imminent (owner ca) h (neighbors (proximity ca) currentTime h) ca') \<and>
   ((\<forall>a\<in>set (neighbors (proximity ca) currentTime h).
       \<not> collision_candidate (owner ca) PosInfinity (h a)) \<longrightarrow>
      map_option fst (CollisionAvoidance_calculateRealSteering ca currentTime h steering) =
        Some \<lparr>linear_acc = \<lparr>data0 = 0, data1 = 0\<rparr>, angular = 0\<rparr>)"
proof -
  have iff: "fst (reportNeighbor ca h n) \<longleftrightarrow> collision_candidate (owner ca) (shortestTime ca) (h n)"
    by (simp add: reportNeighbor_result Let_def)
  have a: "reportNeighbor ca h n =
        (False, ca\<lparr>relativePosition := Vector2_sub (position (h n)) (position (owner ca)),
                   relativeVelocity := Vector2_sub (linearVelocity (h n)) (linearVelocity (owner ca))\<rparr>)"
    if "linearVelocity (h n) = linearVelocity (owner ca)"
    using that by (intro reportNeighbor_rejected) (simp add: collision_candidate_def)
  have b: "\<not> fst (reportNeighbor ca h n)" if "time_to_closest_approach (owner ca) (h n) < 0"
    using that by (simp add: iff collision_candidate_def)
  have c: "\<not> fst (reportNeighbor ca h n)"
    if "\<exists>t. shortestTime ca = Finite t \<and> t \<le> time_to_closest_approach (owner ca) (h n)"
    using that by (auto simp: iff collision_candidate_def)
  have d: "\<not> fst (reportNeighbor ca h n)"
    if "minimum_separation (owner ca) (h n) > boundingRadius (owner ca) + boundingRadius (h n)"
    using that by (simp add: iff collision_candidate_def)
  have e: "shortestTime (snd (reportNeighbor ca h n)) \<noteq> NaN" if "shortestTime ca \<noteq> NaN"
    using that by (simp add: reportNeighbor_result Let_def)
  have f: "\<exists>out ca' h'.
      CollisionAvoidance_calculateRealSteering ca currentTime h steering = Some (out, ca', h') \<and>
      most_imminent (owner ca) h (neighbors (proximity ca) currentTime h) ca'"
    by (rule CollisionAvoidance_most_imminent)
  have g: "map_option fst (CollisionAvoidance_calculateRealSteering ca currentTime h steering) =
        Some \<lparr>linear_acc = \<lparr>data0 = 0, data1 = 0\<rparr>, angular = 0\<rparr>"
    if "\<forall>a\<in>set (neighbors (proximity ca) currentTime h).
       \<not> collision_candidate (owner ca) PosInfinity (h a)"
    using that by (rule CollisionAvoidance_no_candidate)
  from a b c d e f g reportNeighbor_result [of ca h n] show ?thesis
    by (intro conjI impI) blast+
qed

lemma example_avoidance_fields:
  "owner example_avoidance = example_owner" "shortestTime example_avoidance = PosInfinity"
  "proximity example_avoidance = example_proximity"
  "owner (example_avoidance\<lparr>shortestTime := Finite 1\<rparr>) = example_owner"
  "shortestTime (example_avoidance\<lparr>shortestTime := Finite 1\<rparr>) = Finite 1"
  by (simp_all add: example_avoidance_def)

lemma example_owner_fields:
  "position example_owner = \<lparr>data0 = 0, data1 = 0\<rparr>"
  "linearVelocity example_owner = \<lparr>data0 = 0, data1 = 0\<rparr>"
  "boundingRadius example_owner = 0"
  by (simp_all add: example_owner_def)

lemma agent_moving_fields:
  "position (agent_moving a b va vb) = \<lparr>data0 = a, data1 = b\<rparr>"
  "linearVelocity (agent_moving a b va vb) = \<lparr>data0 = va, data1 = vb\<rparr>"
  "boundingRadius (agent_moving a b va vb) = 0"
  by (simp_all add: agent_moving_def agent_at_def example_owner_def)

lemma agent_at_fields:
  "position (agent_at a b) = \<lparr>data0 = a, data1 = b\<rparr>"
  "linearVelocity (agent_at a b) = \<lparr>data0 = 0, data1 = 0\<rparr>"
  "boundingRadius (agent_at a b) = 0"
  by (simp_all add: agent_at_def example_owner_def)

lemma example_heap_fields:
  "linearVelocity (example_heap r) = \<lparr>data0 = 0, data1 = 0\<rparr>"
  by (simp add: example_heap_def agent_at_def example_owner_def)

lemma approaching_candidate:
  "time_to_closest_approach example_owner (agent_moving 3 0 (- 1) 0) = 3"
  "minimum_separation example_owner (agent_moving 3 0 (- 1) 0) = 0"
  "collision_candidate example_owner PosInfinity (agent_moving 3 0 (- 1) 0)"
  "time_to_closest_approach example_owner (agent_moving 10 0 (- 1) 0) = 10"
  "minimum_separation example_owner (agent_moving 10 0 (- 1) 0) = 0"
  "collision_candidate example_owner PosInfinity (agent_moving 10 0 (- 1) 0)"
proof -
  have l3: "Vector2_len \<lparr>data0 = 3, data1 = 0\<rparr> = 3"
    using real_sqrt_abs2 [of 3] by (simp add: Vector2_defs)
  have l10: "Vector2_len \<lparr>data0 = 10, data1 = 0\<rparr> = 10"
    using real_sqrt_abs2 [of 10] by (simp add: Vector2_defs)
  have l1: "Vector2_len \<lparr>data0 = - 1, data1 = 0\<rparr> = 1"
    by (simp add: Vector2_defs)
  show t3: "time_to_closest_approach example_owner (agent_moving 3 0 (- 1) 0) = 3"
    by (simp add: time_to_closest_approach_def example_owner_fields agent_moving_fields Vector2_defs)
  show t10: "time_to_closest_approach example_owner (agent_moving 10 0 (- 1) 0) = 10"
    by (simp add: time_to_closest_approach_def example_owner_fields agent_moving_fields Vector2_defs)
  have s: "Vector2_sub v \<lparr>data0 = 0, data1 = 0\<rparr> = v" for v
    by (cases v) (simp add: Vector2_defs)
  show m3: "minimum_separation example_owner (agent_moving 3 0 (- 1) 0) = 0"
    by (simp add: minimum_separation_def t3 example_owner_fields agent_moving_fields s l3 l1)
  show m10: "minimum_separation example_owner (agent_moving 10 0 (- 1) 0) = 0"
    by (simp add: minimum_separation_def t10 example_owner_fields agent_moving_fields s l10 l1)
  show "collision_candidate example_owner PosInfinity (agent_moving 3 0 (- 1) 0)"
    by (simp add: collision_candidate_def t3 m3 example_owner_fields agent_moving_fields)
  show "collision_candidate example_owner PosInfinity (agent_moving 10 0 (- 1) 0)"
    by (simp add: collision_candidate_def t10 m10 example_owner_fields agent_moving_fields)
qed

lemma example_neighbors:
  "neighbors example_proximity 1 example_heap = [1]"
  "neighbors example_proximity 1 example_heap_near_approaching = [1]"
  "neighbors example_proximity 1 example_heap_far_approaching = [1]"
  by (simp_all add: neighbors_def within_radius_def example_proximity_def example_heap_def
      example_heap_near_approaching_def example_heap_far_approaching_def
      agent_at_def agent_moving_def example_owner_def Vector2_dst2_def vec2_squaredDistance_def)

theorem CollisionAvoidance_rejections_witness:
  "linearVelocity (example_heap 1) = linearVelocity (owner example_avoidance) \<and>
   reportNeighbor example_avoidance example_heap 1 =
     (False, example_avoidance\<lparr>relativePosition := \<lparr>data0 = 3, data1 = 0\<rparr>,
                                relativeVelocity := \<lparr>data0 = 0, data1 = 0\<rparr>\<rparr>) \<and>
   time_to_closest_approach (owner example_avoidance) (agent_moving 3 0 1 0) = - 3 \<and>
   \<not> fst (reportNeighbor example_avoidance (\<lambda>r. agent_moving 3 0 1 0) 1) \<and>
   time_to_closest_approach (owner example_avoidance) (agent_moving 3 0 (- 1) 0) = 3 \<and>
   \<not> fst (reportNeighbor (example_avoidance\<lparr>shortestTime := Finite 1\<rparr>)
            (\<lambda>r. agent_moving 3 0 (- 1) 0) 1) \<and>
   minimum_separation (owner example_avoidance) (agent_moving 3 4 (- 1) 0) = 2 \<and>
   \<not> fst (reportNeighbor example_avoidance (\<lambda>r. agent_moving 3 4 (- 1) 0) 1) \<and>
   reportNeighbor example_avoidance example_heap_near_approaching 1 =
     (True, example_avoidance\<lparr>relativePosition := \<lparr>data0 = 3, data1 = 0\<rparr>,
                               relativeVelocity := \<lparr>data0 = - 1, data1 = 0\<rparr>,
                               shortestTime := Finite 3, firstNeighbor := Some 1,
                               firstMinSeparation := Finite 0, firstDistance := 3,
                               firstRelativePosition := \<lparr>data0 = 3, data1 = 0\<rparr>,
                               firstRelativeVelocity := \<lparr>data0 = - 1, data1 = 0\<rparr>\<rparr>) \<and>
   shortestTime (snd (reportNeighbor example_avoidance example_heap_near_approaching 1)) \<noteq> NaN \<and>
   (\<exists>out ca' h'.
      CollisionAvoidance_calculateRealSteering example_avoidance 1 example_heap_near_approaching
        \<lparr>linear_acc = \<lparr>data0 = 7, data1 = 7\<rparr>, angular = 7\<rparr> = Some (out, ca', h') \<and>
      firstNeighbor ca' = Some 1 \<and> shortestTime ca' = Finite 3 \<and>
      firstMinSeparation ca' = Finite 0) \<and>
   collision_candidate (owner example_avoidance) PosInfinity (example_heap_far_approaching 2) \<and>
   map_option fst (CollisionAvoidance_calculateRealSteering example_avoidance 1
       example_heap_far_approaching \<lparr>linear_acc = \<lparr>data0 = 7, data1 = 7\<rparr>, angular = 7\<rparr>) =
     Some \<lparr>linear_acc = \<lparr>data0 = 0, data1 = 0\<rparr>, angular = 0\<rparr>"
proof -
  have same: "linearVelocity (example_heap 1) = linearVelocity (owner example_avoidance)"
    by (simp add: example_avoidance_fields example_owner_fields example_heap_fields)
  have r1: "reportNeighbor example_avoidance example_heap 1 =
     (False, example_avoidance\<lparr>relativePosition := \<lparr>data0 = 3, data1 = 0\<rparr>,
                                relativeVelocity := \<lparr>data0 = 0, data1 = 0\<rparr>\<rparr>)"
    using CollisionAvoidance_rejections [where ca = example_avoidance and h = example_heap
        and n = 1, THEN conjunct1] same
    by (simp add: example_avoidance_fields example_owner_fields example_heap_def agent_at_fields
        Vector2_defs)
  have t2: "time_to_closest_approach (owner example_avoidance) (agent_moving 3 0 1 0) = - 3"
    by (simp add: time_to_closest_approach_def example_avoidance_fields example_owner_fields
        agent_moving_fields Vector2_defs)
  have r2: "\<not> fst (reportNeighbor example_avoidance (\<lambda>r. agent_moving 3 0 1 0) 1)"
    using CollisionAvoidance_rejections [where ca = example_avoidance
        and h = "\<lambda>r. agent_moving 3 0 1 0" and n = 1, THEN conjunct2, THEN conjunct1] t2
    by simp
  have t3: "time_to_closest_approach (owner example_avoidance) (agent_moving 3 0 (- 1) 0) = 3"
    by (simp add: example_avoidance_fields approaching_candidate)
  have r3: "\<not> fst (reportNeighbor (example_avoidance\<lparr>shortestTime := Finite 1\<rparr>)
            (\<lambda>r. agent_moving 3 0 (- 1) 0) 1)"
    using CollisionAvoidance_rejections [where ca = "example_avoidance\<lparr>shortestTime := Finite 1\<rparr>"
        and h = "\<lambda>r. agent_moving 3 0 (- 1) 0" and n = 1,
        THEN conjunct2, THEN conjunct2, THEN conjunct1] t3
    by (simp add: example_avoidance_fields)
  have t4: "time_to_closest_approach (owner example_avoidance) (agent_moving 3 4 (- 1) 0) = 3"
    by (simp add: time_to_closest_approach_def example_avoidance_fields example_owner_fields
        agent_moving_fields Vector2_defs)
  have m4: "minimum_separation (owner example_avoidance) (agent_moving 3 4 (- 1) 0) = 2"
    by (simp add: minimum_separation_def t4)
       (simp add: example_avoidance_fields example_owner_fields agent_moving_fields Vector2_defs)
  have r4: "\<not> fst (reportNeighbor example_avoidance (\<lambda>r. agent_moving 3 4 (- 1) 0) 1)"
    using CollisionAvoidance_rejections [where ca = example_avoidance
        and h = "\<lambda>r. agent_moving 3 4 (- 1) 0" and n = 1,
        THEN conjunct2, THEN conjunct2, THEN conjunct2, THEN conjunct1] m4
    by (simp add: example_avoidance_fields example_owner_fields agent_moving_fields)
  have near1: "example_heap_near_approaching 1 = agent_moving 3 0 (- 1) 0"
    "example_heap_near_approaching (Suc 0) = agent_moving 3 0 (- 1) 0"
    by (simp_all add: example_heap_near_approaching_def)
  have l3: "Vector2_len \<lparr>data0 = 3, data1 = 0\<rparr> = 3"
    using real_sqrt_abs2 [of 3] by (simp add: Vector2_defs)
  have r5: "reportNeighbor example_avoidance example_heap_near_approaching 1 =
     (True, example_avoidance\<lparr>relativePosition := \<lparr>data0 = 3, data1 = 0\<rparr>,
                               relativeVelocity := \<lparr>data0 = - 1, data1 = 0\<rparr>,
                               shortestTime := Finite 3, firstNeighbor := Some 1,
                               firstMinSeparation := Finite 0, firstDistance := 3,
                               firstRelativePosition := \<lparr>data0 = 3, data1 = 0\<rparr>,
                               firstRelativeVelocity := \<lparr>data0 = - 1, data1 = 0\<rparr>\<rparr>)"
    using CollisionAvoidance_rejections [where ca = example_avoidance
        and h = example_heap_near_approaching and n = 1,
        THEN conjunct2, THEN conjunct2, THEN conjunct2, THEN conjunct2, THEN conjunct1]
    by (simp add: Let_def near1 example_avoidance_fields approaching_candidate
        example_owner_fields agent_moving_fields Vector2_sub_def vec2_sub_def l3
        del: One_nat_def)
  have r6: "shortestTime (snd (reportNeighbor example_avoidance example_heap_near_approaching 1))
      \<noteq> NaN"
    using CollisionAvoidance_rejections [where ca = example_avoidance
        and h = example_heap_near_approaching and n = 1,
        THEN conjunct2, THEN conjunct2, THEN conjunct2, THEN conjunct2, THEN conjunct2,
        THEN conjunct1]
    by (simp add: example_avoidance_fields)
  from CollisionAvoidance_rejections [where ca = example_avoidance
        and h = example_heap_near_approaching and currentTime = 1
        and steering = "\<lparr>linear_acc = \<lparr>data0 = 7, data1 = 7\<rparr>, angular = 7\<rparr>",
        THEN conjunct2, THEN conjunct2, THEN conjunct2, THEN conjunct2, THEN conjunct2,
        THEN conjunct2, THEN conjunct1]
  obtain out ca' h' where
    run: "CollisionAvoidance_calculateRealSteering example_avoidance 1 example_heap_near_approaching
        \<lparr>linear_acc = \<lparr>data0 = 7, data1 = 7\<rparr>, angular = 7\<rparr> = Some (out, ca', h')"
    and mi: "most_imminent example_owner example_heap_near_approaching [1] ca'"
    by (auto simp: example_avoidance_fields example_neighbors)
  from mi have "firstNeighbor ca' = Some 1 \<and> shortestTime ca' = Finite 3 \<and>
      firstMinSeparation ca' = Finite 0"
    by (cases "firstNeighbor ca'") (simp_all add: most_imminent_def near1 approaching_candidate)
  with run have r7: "\<exists>out ca' h'.
      CollisionAvoidance_calculateRealSteering example_avoidance 1 example_heap_near_approaching
        \<lparr>linear_acc = \<lparr>data0 = 7, data1 = 7\<rparr>, angular = 7\<rparr> = Some (out, ca', h') \<and>
      firstNeighbor ca' = Some 1 \<and> shortestTime ca' = Finite 3 \<and>
      firstMinSeparation ca' = Finite 0"
    by blast
  have far: "collision_candidate (owner example_avoidance) PosInfinity
      (example_heap_far_approaching 2)"
    by (simp add: example_heap_far_approaching_def example_avoidance_fields approaching_candidate)
  have none: "\<forall>a\<in>set (neighbors (proximity example_avoidance) 1 example_heap_far_approaching).
      \<not> collision_candidate (owner example_avoidance) PosInfinity (example_heap_far_approaching a)"
    unfolding example_avoidance_fields example_neighbors
    by (simp add: collision_candidate_def example_heap_far_approaching_def
        example_owner_fields agent_at_fields)
  have r8: "map_option fst (CollisionAvoidance_calculateRealSteering example_avoidance 1
       example_heap_far_approaching \<lparr>linear_acc = \<lparr>data0 = 7, data1 = 7\<rparr>, angular = 7\<rparr>) =
     Some \<lparr>linear_acc = \<lparr>data0 = 0, data1 = 0\<rparr>, angular = 0\<rparr>"
    using CollisionAvoidance_rejections [where ca = example_avoidance
        and h = example_heap_far_approaching
        and currentTime = 1 and steering = "\<lparr>linear_acc = \<lparr>data0 = 7, data1 = 7\<rparr>, angular = 7\<rparr>",
        THEN conjunct2, THEN conjunct2, THEN conjunct2, THEN conjunct2, THEN conjunct2,
        THEN conjunct2, THEN conjunct2] none
    by blast
  from same r1 t2 r2 t3 r3 m4 r4 r5 r6 r7 far r8 show ?thesis by blast
qed

section \<open>Properties of BlendedSteering\<close>

lemma blend_loop_sum:
  assumes "blend_loop bws (sc, b) = (sc', b')"
  shows "data0 (linear_acc b') = data0 (linear_acc b) +
           (\<Sum>(bw, out)\<leftarrow>zip bws (child_outputs (map behavior bws) sc).
              weight bw * data0 (linear_acc out)) \<and>
         data1 (linear_acc b') = data1 (linear_acc b) +
           (\<Sum>(bw, out)\<leftarrow>zip bws (child_outputs (map behavior bws) sc).
              weight bw * data1 (linear_acc out)) \<and>
         angular b' = angular b +
           (\<Sum>(bw, out)\<leftarrow>zip bws (child_outputs (map behavior bws) sc).
              weight bw * angular out)"
  using assms
proof (induction bws arbitrary: sc b)
  case Nil
  then show ?case by simp
next
  case (Cons bw bws)
  let ?sc = "Child_calculateSteering (behavior bw) sc"
  let ?b = "mulAdd b ?sc (weight bw)"
  from Cons.prems have "blend_loop bws (?sc, ?b) = (sc', b')"
    by (simp add: Let_def)
  from Cons.IH [OF this] show ?case
    by (simp add: Let_def mulAdd_def Vector2_scaleAndAdd_def vec2_scaleAndAdd_def algebra_simps)
qed

text \<open>
  What an enabled \<open>BlendedSteering\<close> returns, for a linear cap that is not negative: the
  children run in list order on the private buffer; \<open>V\<close> and \<open>W\<close> are the sums of weight
  times the linear and the angular output of each child. The linear output is \<open>V\<close>, or
  \<open>V\<close> rescaled to the length of the cap when it is longer, so it keeps the direction of
  \<open>V\<close>. The angular output is \<open>W\<close>, replaced by the cap only when \<open>W\<close> is above it.
\<close>

proposition BlendedSteering_output:
  fixes this :: BlendedSteering and blendedSteering :: SteeringAcceleration
  defines "outs \<equiv> child_outputs (map behavior (blend_list this)) (blend_steering this)"
  defines "V \<equiv> \<lparr>data0 = (\<Sum>(bw, out)\<leftarrow>zip (blend_list this) outs. weight bw * data0 (linear_acc out)),
                  data1 = (\<Sum>(bw, out)\<leftarrow>zip (blend_list this) outs. weight bw * data1 (linear_acc out))\<rparr>"
  defines "W \<equiv> (\<Sum>(bw, out)\<leftarrow>zip (blend_list this) outs. weight bw * angular out)"
  defines "maxLinear \<equiv> getMaxLinearAcceleration (getActualLimiter this)"
  defines "maxAngular \<equiv> getMaxAngularAcceleration (getActualLimiter this)"
  assumes en: "enabled this" and cap: "0 \<le> maxLinear"
  shows "linear_acc (fst (BlendedSteering_calculateSteering this blendedSteering)) =
           (if Vector2_len V \<le> maxLinear then V else Vector2_scale V (maxLinear / Vector2_len V))"
    and "Vector2_len V > maxLinear \<Longrightarrow>
           Vector2_len (linear_acc (fst (BlendedSteering_calculateSteering this blendedSteering)))
             = maxLinear"
    and "angular (fst (BlendedSteering_calculateSteering this blendedSteering)) =
           (if W > maxAngular then maxAngular else W)"
proof -
  obtain sc' b' where l: "blend_loop (blend_list this)
      (blend_steering this, SteeringAcceleration_setZero blendedSteering) = (sc', b')"
    by (cases "blend_loop (blend_list this)
      (blend_steering this, SteeringAcceleration_setZero blendedSteering)") blast
  have z: "data0 (linear_acc (SteeringAcceleration_setZero blendedSteering)) = 0"
    "data1 (linear_acc (SteeringAcceleration_setZero blendedSteering)) = 0"
    "angular (SteeringAcceleration_setZero blendedSteering) = 0"
    by (simp_all add: SteeringAcceleration_setZero_def Vector2_setZero_def)
  from blend_loop_sum [OF l]
  have "data0 (linear_acc b') = data0 V" "data1 (linear_acc b') = data1 V" and ang: "angular b' = W"
    unfolding V_def W_def outs_def z by simp_all
  then have lin: "linear_acc b' = V"
    by (cases "linear_acc b'", cases V) simp
  have out: "fst (BlendedSteering_calculateSteering this blendedSteering) =
      (if W > maxAngular
       then b'\<lparr>linear_acc := Vector2_limit V maxLinear, angular := maxAngular\<rparr>
       else b'\<lparr>linear_acc := Vector2_limit V maxLinear\<rparr>)"
    using en
    by (simp add: BlendedSteering_calculateSteering_def BlendedSteering_calculateRealSteering_def
        Let_def l lin ang maxLinear_def maxAngular_def)
  show "linear_acc (fst (BlendedSteering_calculateSteering this blendedSteering)) =
           (if Vector2_len V \<le> maxLinear then V else Vector2_scale V (maxLinear / Vector2_len V))"
    by (simp add: out Vector2_limit_eq_le [OF cap])
  show "Vector2_len (linear_acc (fst (BlendedSteering_calculateSteering this blendedSteering)))
             = maxLinear" if "Vector2_len V > maxLinear"
    using that by (simp add: out Vector2_len_limit [OF cap])
  show "angular (fst (BlendedSteering_calculateSteering this blendedSteering)) =
           (if W > maxAngular then maxAngular else W)"
    by (simp add: out ang)
qed

lemma getActualLimiter_example_blended:
  "getMaxAngularAcceleration (getActualLimiter example_blended) = 1"
  "getMaxLinearAcceleration (getActualLimiter example_blended) = 5"
  by (simp_all add: getActualLimiter_def example_blended_def example_owner_def Limiter.truncate_def)

text \<open>
  Claim C1. The claim has the combined angular magnitude clamped to
  \<open>maxAngularAcceleration\<close>. The code only cuts an angular sum above the cap; a sum
  below minus the cap is returned as it is. For one child of weight 1 that writes the
  angular acceleration \<open>-10\<close> and a cap of 1, the output is \<open>-10\<close>, of magnitude 10.
\<close>

theorem BlendedSteering_negative_angular_not_clamped:
  "fst (BlendedSteering_calculateSteering example_blended zero_steering) =
     \<lparr>linear_acc = \<lparr>data0 = 0, data1 = 0\<rparr>, angular = - 10\<rparr> \<and>
   getMaxAngularAcceleration (getActualLimiter example_blended) = 1 \<and>
   \<bar>angular (fst (BlendedSteering_calculateSteering example_blended zero_steering))\<bar>
     > getMaxAngularAcceleration (getActualLimiter example_blended)"
proof -
  have loop: "blend_loop (blend_list example_blended)
      (blend_steering example_blended, SteeringAcceleration_setZero zero_steering) =
    (\<lparr>linear_acc = \<lparr>data0 = 0, data1 = 0\<rparr>, angular = - 10\<rparr>,
     \<lparr>linear_acc = \<lparr>data0 = 0, data1 = 0\<rparr>, angular = - 10\<rparr>)"
    by (simp add: example_blended_def example_defs SteeringAcceleration_setZero_def
        Vector2_setZero_def mulAdd_def Vector2_scaleAndAdd_def vec2_scaleAndAdd_def)
  have lim: "Vector2_limit \<lparr>data0 = 0, data1 = 0\<rparr> 5 = \<lparr>data0 = 0, data1 = 0\<rparr>"
    by (simp add: Vector2_limit_def Vector2_limit2_def Vector2_sqrLen_def vec2_sqrLen_def)
  have en: "enabled example_blended"
    by (simp add: example_blended_def)
  have out: "fst (BlendedSteering_calculateSteering example_blended zero_steering) =
     \<lparr>linear_acc = \<lparr>data0 = 0, data1 = 0\<rparr>, angular = - 10\<rparr>"
    by (simp add: BlendedSteering_calculateSteering_def BlendedSteering_calculateRealSteering_def
        en loop getActualLimiter_example_blended lim)
  show ?thesis
    by (simp add: out getActualLimiter_example_blended)
qed

section \<open>Properties of the airborne time of Jump\<close>

text \<open>Both candidate times solve the equation of the vertical motion.\<close>

lemma Jump_roots_solve:
  fixes g v0 d t :: real
  assumes g: "g \<noteq> 0" and r: "0 \<le> 2 * g * d + v0 * v0"
    and t: "t = (- v0 + sqrt (2 * g * d + v0 * v0)) / g \<or> t = (- v0 - sqrt (2 * g * d + v0 * v0)) / g"
  shows "v0 * t + 1 / 2 * g * t\<^sup>2 = d"
proof -
  let ?s = "sqrt (2 * g * d + v0 * v0)"
  have sq: "?s * ?s = 2 * g * d + v0 * v0"
    using r by simp
  have gt: "g * t = - v0 + ?s \<or> g * t = - v0 - ?s"
    using t g by auto
  have "2 * g * (v0 * t + 1 / 2 * g * t\<^sup>2) = (g * t + v0) * (g * t + v0) - v0 * v0"
    by (simp add: power2_eq_square algebra_simps)
  also have "\<dots> = ?s * ?s - v0 * v0"
    using gt by auto
  also have "\<dots> = 2 * g * d"
    unfolding sq by simp
  finally show ?thesis using g by simp
qed

lemma check_rejected:
  assumes "checkAirborneTimeAndCalculateVelocity j out time jumpDescriptor m = (False, j', out')"
  shows "out' = out" and "maxVerticalVelocity j' = maxVerticalVelocity j"
  using assms
  by (auto simp: checkAirborneTimeAndCalculateVelocity_def Let_def split: if_splits)

text \<open>
  Whatever \<open>calculateAirborneTimeAndVelocity\<close> returns is either \<open>-1\<close> with
  \<open>outVelocity\<close> as it was, or a time that solves the equation of the vertical motion.
\<close>

proposition Jump_returned_time:
  assumes res: "calculateAirborneTimeAndVelocity this outVelocity jumpDescriptor maxLinearSpeed
      = Some (t, this', outVelocity')"
  shows "(t = - 1 \<and> outVelocity' = outVelocity) \<or>
         maxVerticalVelocity this * t
           + 1 / 2 * getComponent (gravityComponentHandler this) (gravity this) * t\<^sup>2
           = getComponent (gravityComponentHandler this) (delta jumpDescriptor)"
proof -
  let ?g = "getComponent (gravityComponentHandler this) (gravity this)"
  let ?d = "getComponent (gravityComponentHandler this) (delta jumpDescriptor)"
  let ?v = "maxVerticalVelocity this"
  let ?r = "2 * ?g * ?d + ?v * ?v"
  let ?t1 = "(- ?v + sqrt ?r) / ?g"
  from res have g: "?g \<noteq> 0"
    by (auto simp: calculateAirborneTimeAndVelocity_def Let_def split: if_splits)
  show ?thesis
  proof (cases "?r < 0")
    case True
    with res g show ?thesis
      by (simp add: calculateAirborneTimeAndVelocity_def Let_def)
  next
    case False
    then have r: "0 \<le> ?r" by simp
    obtain b1 j1 o1 where c1:
      "checkAirborneTimeAndCalculateVelocity this outVelocity ?t1 jumpDescriptor maxLinearSpeed
         = (b1, j1, o1)"
      by (rule prod_cases3)
    show ?thesis
    proof (cases b1)
      case True
      with res g False c1 have "t = ?t1"
        by (simp add: calculateAirborneTimeAndVelocity_def Let_def)
      with Jump_roots_solve [OF g r, of t] show ?thesis by blast
    next
      case b1: False
      from c1 b1 have c1':
        "checkAirborneTimeAndCalculateVelocity this outVelocity ?t1 jumpDescriptor maxLinearSpeed
           = (False, j1, o1)"
        by simp
      from check_rejected [OF c1']
      have o1: "o1 = outVelocity" and v1: "maxVerticalVelocity j1 = ?v" .
      let ?t2 = "(- ?v - sqrt ?r) / ?g"
      obtain b2 j2 o2 where c2:
        "checkAirborneTimeAndCalculateVelocity j1 o1 ?t2 jumpDescriptor maxLinearSpeed
           = (b2, j2, o2)"
        by (rule prod_cases3)
      show ?thesis
      proof (cases b2)
        case True
        with res g False c1 b1 c2 v1 have "t = ?t2"
          by (simp add: calculateAirborneTimeAndVelocity_def Let_def)
        with Jump_roots_solve [OF g r, of t] show ?thesis by blast
      next
        case b2: False
        from c2 b2 have c2':
          "checkAirborneTimeAndCalculateVelocity j1 o1 ?t2 jumpDescriptor maxLinearSpeed
             = (False, j2, o2)"
          by simp
        from check_rejected(1) [OF c2'] o1 have "o2 = outVelocity" by simp
        with res g False c1 b1 c2 b2 v1 show ?thesis
          by (simp add: calculateAirborneTimeAndVelocity_def Let_def)
      qed
    qed
  qed
qed

lemma example_jump_fields:
  "gravityComponentHandler example_jump = vertical_axis"
  "gravity example_jump = \<lparr>data0 = 0, data1 = - 1\<rparr>"
  "maxVerticalVelocity example_jump = 1"
  "planarVelocity example_jump = \<lparr>data0 = 0, data1 = 0\<rparr>"
  "delta example_descriptor = \<lparr>data0 = 1, data1 = - 4\<rparr>"
  "getComponent vertical_axis v = data1 v"
  "setComponent vertical_axis v val = v\<lparr>data1 := val\<rparr>"
  by (simp_all add: example_jump_def example_descriptor_def vertical_axis_def)

text \<open>
  Claim C5. The claim has the smaller non-negative root preferred. The code tries the
  root with the positive square root first and never looks at the sign of a time. For a
  jump down by 4 with gravity \<open>-1\<close> and vertical velocity 1 the roots are \<open>-2\<close> and 4:
  the code accepts \<open>-2\<close>, writes the planar velocity \<open>-1/2\<close> (away from the landing
  point) and returns \<open>-2\<close>, although the root 4 solves the equation and passes the same
  check.
\<close>

theorem Jump_returns_negative_root:
  "calculateAirborneTimeAndVelocity example_jump \<lparr>data0 = 0, data1 = 0\<rparr> example_descriptor 10 =
     Some (- 2, example_jump\<lparr>planarVelocity := \<lparr>data0 = - 1 / 2, data1 = 0\<rparr>\<rparr>,
           \<lparr>data0 = - 1 / 2, data1 = 0\<rparr>) \<and>
   fst (checkAirborneTimeAndCalculateVelocity example_jump \<lparr>data0 = 0, data1 = 0\<rparr> 4
          example_descriptor 10) \<and>
   maxVerticalVelocity example_jump * 4
     + 1 / 2 * getComponent (gravityComponentHandler example_jump) (gravity example_jump) * 4\<^sup>2
     = getComponent (gravityComponentHandler example_jump) (delta example_descriptor)"
proof -
  have s: "sqrt 9 = 3"
    using real_sqrt_abs [of 3] by simp
  have chk: "checkAirborneTimeAndCalculateVelocity example_jump \<lparr>data0 = 0, data1 = 0\<rparr> (- 2)
      example_descriptor 10 =
    (True, example_jump\<lparr>planarVelocity := \<lparr>data0 = - 1 / 2, data1 = 0\<rparr>\<rparr>,
     \<lparr>data0 = - 1 / 2, data1 = 0\<rparr>)"
    by (simp add: checkAirborneTimeAndCalculateVelocity_def Let_def example_jump_fields
        Vector2_copy_def Vector2_scale_def vec2_scale_def Vector2_sqrLen_def vec2_sqrLen_def)
  have a: "calculateAirborneTimeAndVelocity example_jump \<lparr>data0 = 0, data1 = 0\<rparr> example_descriptor 10 =
     Some (- 2, example_jump\<lparr>planarVelocity := \<lparr>data0 = - 1 / 2, data1 = 0\<rparr>\<rparr>,
           \<lparr>data0 = - 1 / 2, data1 = 0\<rparr>)"
    by (simp add: calculateAirborneTimeAndVelocity_def Let_def example_jump_fields s chk)
  have b: "fst (checkAirborneTimeAndCalculateVelocity example_jump \<lparr>data0 = 0, data1 = 0\<rparr> 4
          example_descriptor 10)"
    by (simp add: checkAirborneTimeAndCalculateVelocity_def Let_def example_jump_fields
        Vector2_copy_def Vector2_scale_def vec2_scale_def Vector2_sqrLen_def vec2_sqrLen_def)
  have c: "maxVerticalVelocity example_jump * 4
     + 1 / 2 * getComponent (gravityComponentHandler example_jump) (gravity example_jump) * 4\<^sup>2
     = getComponent (gravityComponentHandler example_jump) (delta example_descriptor)"
    by (simp add: example_jump_fields)
  from a b c show ?thesis by blast
qed

end
